theory Spec2Isabelle
  imports Complex_Main
begin

section \<open>Data model\<close>

text \<open>
  The development embeds \<^verbatim>\<open>image_processing_depth_pro_fast.py\<close>
  (class \<^verbatim>\<open>DepthProImageProcessorFast\<close>). Tensor elements are modelled as
  real numbers: every statement below is about the arithmetic the code asks for, not
  about its floating-point rounding. Division is the total division of the reals
  (\<open>x / 0 = 0\<close>), where floating point gives an infinity or a NaN; no statement
  below rests on the value of a division by zero.

  Exceptions are values: a function that can raise returns \<open>error + 'a\<close>, with
  \<open>Inl\<close> the exception. \<open>ValueError\<close> carries the message of the
  \<^verbatim>\<open>raise\<close>. \<open>TorchError\<close> stands for any exception thrown inside the
  tensor library (torch, torchvision), whose code is not part of the repository.
  \<open>KeyError\<close> is the exception of a dictionary lookup with a key the dictionary
  does not hold.
\<close>

datatype error =
  ValueError string | IndexError | KeyError | AttributeError | TypeError | TorchError

text \<open>
  A tensor is its shape and its elements in row-major order, as torch stores a
  contiguous tensor.
\<close>

datatype tensor = Tensor (shape: "nat list") (vals: "real list")

text \<open>\<^verbatim>\<open>Tensor.unsqueeze(d)\<close>: a new axis of extent 1 at position \<open>d\<close>.\<close>

definition unsqueeze :: "nat \<Rightarrow> tensor \<Rightarrow> tensor" where
  "unsqueeze d t = Tensor (take d (shape t) @ [1] @ drop d (shape t)) (vals t)"

text \<open>\<^verbatim>\<open>Tensor.squeeze()\<close> with no argument: every axis of extent 1 is removed.\<close>

definition squeeze :: "tensor \<Rightarrow> tensor" where
  "squeeze t = Tensor (filter (\<lambda>n. n \<noteq> 1) (shape t)) (vals t)"

text \<open>Elementwise operations of torch with a scalar operand.\<close>

definition tensor_map :: "(real \<Rightarrow> real) \<Rightarrow> tensor \<Rightarrow> tensor" where
  "tensor_map f t = Tensor (shape t) (map f (vals t))"

definition mul_scalar :: "tensor \<Rightarrow> real \<Rightarrow> tensor" where
  "mul_scalar t c = tensor_map (\<lambda>x. x * c) t"

definition div_scalar :: "tensor \<Rightarrow> real \<Rightarrow> tensor" where
  "div_scalar t c = tensor_map (\<lambda>x. x / c) t"

definition scalar_div :: "real \<Rightarrow> tensor \<Rightarrow> tensor" where
  "scalar_div c t = tensor_map (\<lambda>x. c / x) t"

definition clamp :: "real \<Rightarrow> real \<Rightarrow> real \<Rightarrow> real" where
  "clamp x lo hi = min (max x lo) hi"

definition torch_clamp :: "tensor \<Rightarrow> real \<Rightarrow> real \<Rightarrow> tensor" where
  "torch_clamp t lo hi = tensor_map (\<lambda>x. clamp x lo hi) t"

definition deg2rad :: "real \<Rightarrow> real" where
  "deg2rad x = x * pi / 180"

text \<open>
  The resampling filters of the pixel library (\<^verbatim>\<open>PILImageResampling\<close>) and
  the interpolation modes of the tensor library.
\<close>

datatype PILImageResampling = NEAREST | LANCZOS | BILINEAR | BICUBIC | BOX | HAMMING

datatype InterpolationMode =
  IM_NEAREST | IM_LANCZOS | IM_BILINEAR | IM_BICUBIC | IM_BOX | IM_HAMMING

text \<open>
  Modelled from the spec: the table \<^verbatim>\<open>pil_torch_interpolation_mapping\<close> of
  \<^verbatim>\<open>image_utils\<close> is not in the sources. The spec speaks of one filter for
  both libraries, so each filter is mapped to the mode of its name. No statement
  below depends on an entry of the table.
\<close>

fun pil_torch_interpolation_mapping :: "PILImageResampling \<Rightarrow> InterpolationMode" where
  "pil_torch_interpolation_mapping NEAREST = IM_NEAREST"
| "pil_torch_interpolation_mapping BOX = IM_BOX"
| "pil_torch_interpolation_mapping BILINEAR = IM_BILINEAR"
| "pil_torch_interpolation_mapping HAMMING = IM_HAMMING"
| "pil_torch_interpolation_mapping BICUBIC = IM_BICUBIC"
| "pil_torch_interpolation_mapping LANCZOS = IM_LANCZOS"

text \<open>
  \<^verbatim>\<open>torch.nn.functional.interpolate(input, size, mode, antialias)\<close> on a
  four-dimensional input \<open>(B, C, H, W)\<close> returns a tensor of shape
  \<open>(B, C, size[0], size[1])\<close>. The interpolated values, and whether the library
  accepts the call at all, are the library's: they are the parameter \<open>K\<close>, a
  function from the mode, the antialias argument, the input and the size to the
  elements of the result, or \<open>None\<close> when the library raises. The antialias
  argument is an option: the caller may hand \<^verbatim>\<open>None\<close> to the library, and
  what the library makes of it is the library's as well.
\<close>

type_synonym sampler =
  "InterpolationMode \<Rightarrow> bool option \<Rightarrow> tensor \<Rightarrow> nat \<times> nat \<Rightarrow> real list option"

definition interpolate ::
  "sampler \<Rightarrow> tensor \<Rightarrow> nat \<times> nat \<Rightarrow> InterpolationMode \<Rightarrow> bool option
   \<Rightarrow> error + tensor" where
  "interpolate K inp target_size mode aa =
     (case shape inp of
        [b, c, h, w] \<Rightarrow>
          (case K mode aa inp target_size of
             None \<Rightarrow> Inl TorchError
           | Some v \<Rightarrow> Inr (Tensor [b, c, fst target_size, snd target_size] v))
      | _ \<Rightarrow> Inl TorchError)"

text \<open>
  The processor object, with the attributes \<^verbatim>\<open>__init__\<close> stores (lines
  112-122). \<^verbatim>\<open>size\<close>, \<^verbatim>\<open>image_mean\<close> and \<^verbatim>\<open>image_std\<close>
  are never \<^verbatim>\<open>None\<close>: \<^verbatim>\<open>__init__\<close> stores a default in the place of
  \<^verbatim>\<open>None\<close> (lines 112, 121, 122). \<^verbatim>\<open>resample\<close>,
  \<^verbatim>\<open>antialias\<close> and \<^verbatim>\<open>rescale_factor\<close> are stored as they are passed
  (lines 118-120), \<^verbatim>\<open>None\<close> included, so they are options. The three flags
  are read for their truth value only, where \<^verbatim>\<open>None\<close> counts as false, so they
  are booleans. \<^verbatim>\<open>image_mean\<close> and \<^verbatim>\<open>image_std\<close> are a float or a
  list of floats. The attribute \<^verbatim>\<open>size\<close> is the field \<open>size_dict\<close>, with
  the two keys the class reads.
\<close>

datatype stat = Scalar real | Channels "real list"

record SizeDict =
  height :: nat
  width :: nat

record DepthProImageProcessorFast =
  do_resize :: bool
  size_dict :: SizeDict
  resample :: "PILImageResampling option"
  antialias :: "bool option"
  do_rescale :: bool
  rescale_factor :: "real option"
  do_normalize :: bool
  image_mean :: stat
  image_std :: stat

section \<open>Post-processing: \<^verbatim>\<open>post_process_depth_estimation\<close>\<close>

text \<open>The dictionary \<^verbatim>\<open>outputs\<close> the method fills and returns.\<close>

record DepthOutputs =
  predicted_depth :: "tensor list"
  fov :: "real list option"

definition length_mismatch_message :: string where
  "length_mismatch_message =
     ''Make sure that you pass in as many fov values as the batch dimension of the predicted depth''"

text \<open>
  Lines 367-371, the branch \<^verbatim>\<open>if fov is not None\<close>: the corrected value, the
  scaled depth, and the append to \<^verbatim>\<open>outputs["fov"]\<close>, which raises
  \<^verbatim>\<open>AttributeError\<close> when that entry is \<^verbatim>\<open>None\<close>.
\<close>

definition fov_scale ::
  "DepthOutputs \<Rightarrow> tensor \<Rightarrow> real \<Rightarrow> nat \<times> nat \<Rightarrow> error + DepthOutputs \<times> tensor" where
  "fov_scale outputs pd fv target_size =
     (let wd = real (snd target_size);
          fv' = 0.5 * wd / tan (0.5 * deg2rad fv);
          pd' = div_scalar (mul_scalar pd wd) fv'
      in case fov outputs of
           None \<Rightarrow> Inl AttributeError
         | Some fs \<Rightarrow> Inr (outputs\<lparr>fov := Some (fs @ [fv'])\<rparr>, pd'))"

text \<open>
  Lines 374-380: unsqueeze twice, interpolate, squeeze. The lookup
  \<^verbatim>\<open>pil_torch_interpolation_mapping[self.resample]\<close> raises
  \<^verbatim>\<open>KeyError\<close> when the attribute is \<^verbatim>\<open>None\<close>; the attribute
  \<^verbatim>\<open>antialias\<close> is handed to the library as it is.
\<close>

definition resize_depth ::
  "sampler \<Rightarrow> DepthProImageProcessorFast \<Rightarrow> tensor \<Rightarrow> nat \<times> nat \<Rightarrow> error + tensor" where
  "resize_depth K self pd target_size =
     (case resample self of
        None \<Rightarrow> Inl KeyError
      | Some resample' \<Rightarrow>
          (case interpolate K (unsqueeze 1 (unsqueeze 0 pd)) target_size
                  (pil_torch_interpolation_mapping resample') (antialias self) of
             Inl e \<Rightarrow> Inl e
           | Inr t \<Rightarrow> Inr (squeeze t)))"

text \<open>The body of the loop over the samples (lines 362-385).\<close>

definition loop_body ::
  "sampler \<Rightarrow> DepthProImageProcessorFast \<Rightarrow> DepthOutputs \<Rightarrow>
   tensor \<Rightarrow> real option \<Rightarrow> (nat \<times> nat) option \<Rightarrow> error + DepthOutputs" where
  "loop_body K self outputs pd fv target_size =
     (case
        (case target_size of
           None \<Rightarrow> Inr (outputs, pd)
         | Some ts \<Rightarrow>
             (case (case fv of
                      None \<Rightarrow> Inr (outputs, pd)
                    | Some f \<Rightarrow> fov_scale outputs pd f ts) of
                Inl e \<Rightarrow> Inl e
              | Inr (outputs1, pd1) \<Rightarrow>
                  (case resize_depth K self pd1 ts of
                     Inl e \<Rightarrow> Inl e
                   | Inr pd2 \<Rightarrow> Inr (outputs1, pd2)))) of
        Inl e \<Rightarrow> Inl e
      | Inr (outputs2, pd3) \<Rightarrow>
          Inr (outputs2\<lparr>predicted_depth :=
                 predicted_depth outputs2 @ [scalar_div 1 (torch_clamp pd3 0.0001 10000)]\<rparr>))"

fun depth_loop ::
  "sampler \<Rightarrow> DepthProImageProcessorFast \<Rightarrow> DepthOutputs \<Rightarrow>
   (tensor \<times> real option \<times> (nat \<times> nat) option) list \<Rightarrow> error + DepthOutputs" where
  "depth_loop K self outputs [] = Inr outputs"
| "depth_loop K self outputs ((pd, fv, ts) # rest) =
     (case loop_body K self outputs pd fv ts of
        Inl e \<Rightarrow> Inl e
      | Inr outputs' \<Rightarrow> depth_loop K self outputs' rest)"

text \<open>
  Lines 359-360: an argument that is \<^verbatim>\<open>None\<close> becomes a list of
  \<^verbatim>\<open>None\<close>, one per sample.
\<close>

definition per_sample :: "nat \<Rightarrow> 'a option list option \<Rightarrow> 'a option list" where
  "per_sample n arg = (case arg of None \<Rightarrow> replicate n None | Some l \<Rightarrow> l)"

text \<open>
  The method. \<^verbatim>\<open>fovs\<close> and \<^verbatim>\<open>target_sizes\<close> are \<^verbatim>\<open>None\<close> or a
  list with one entry per sample; an entry is \<^verbatim>\<open>None\<close> or a value, since the
  loop tests each entry against \<^verbatim>\<open>None\<close>. The check
  \<^verbatim>\<open>requires_backends(self, "torch")\<close> is taken to pass: the tensor library is
  installed.
\<close>

definition post_process_depth_estimation ::
  "sampler \<Rightarrow> DepthProImageProcessorFast \<Rightarrow> tensor list \<Rightarrow>
   real option list option \<Rightarrow> (nat \<times> nat) option list option \<Rightarrow> error + DepthOutputs" where
  "post_process_depth_estimation K self predicted_depths fovs target_sizes =
     (if (case fovs of None \<Rightarrow> False | Some fs \<Rightarrow> length predicted_depths \<noteq> length fs)
      then Inl (ValueError length_mismatch_message)
      else if (case target_sizes of None \<Rightarrow> False
               | Some tss \<Rightarrow> length predicted_depths \<noteq> length tss)
      then Inl (ValueError length_mismatch_message)
      else
        (let outputs = \<lparr>predicted_depth = [],
                        fov = (case fovs of None \<Rightarrow> None | Some fs \<Rightarrow> Some [])\<rparr>;
             fovs' = per_sample (length predicted_depths) fovs;
             target_sizes' = per_sample (length predicted_depths) target_sizes
         in depth_loop K self outputs (zip predicted_depths (zip fovs' target_sizes'))))"

text \<open>
  A sampler to run the model on concrete inputs: nearest-neighbour interpolation of
  each plane of a four-dimensional input, refusing empty inputs and empty sizes.
\<close>

definition nearest_sampler :: sampler where
  "nearest_sampler mode aa inp target_size =
     (case shape inp of
        [b, c, h, w] \<Rightarrow>
          (if h = 0 \<or> w = 0 \<or> fst target_size = 0 \<or> snd target_size = 0 then None
           else Some (concat (map (\<lambda>p.
                  concat (map (\<lambda>i.
                    map (\<lambda>j. vals inp ! (p * h * w + (i * h div fst target_size) * w
                                            + j * w div snd target_size))
                      [0..<snd target_size])
                  [0..<fst target_size]))
                [0..<b * c])))
      | _ \<Rightarrow> None)"

text \<open>
  A processor with the default arguments of \<^verbatim>\<open>__init__\<close>, used in the
  examples. The default mean and standard deviation
  (\<^verbatim>\<open>IMAGENET_STANDARD_MEAN\<close> and \<^verbatim>\<open>IMAGENET_STANDARD_STD\<close> of
  \<^verbatim>\<open>image_utils\<close>, which are not in the sources) are taken to be
  \<open>[0.5, 0.5, 0.5]\<close>.
\<close>

definition default_processor :: DepthProImageProcessorFast where
  "default_processor =
     \<lparr>do_resize = True, size_dict = \<lparr>height = 1536, width = 1536\<rparr>,
      resample = Some BILINEAR, antialias = Some False, do_rescale = True,
      rescale_factor = Some (1 / 255), do_normalize = True,
      image_mean = Channels [0.5, 0.5, 0.5], image_std = Channels [0.5, 0.5, 0.5]\<rparr>"

subsection \<open>The contribution of one sample\<close>

text \<open>
  Two functions used in the proofs below to describe what one iteration of the loop
  adds: the depth map it appends, and the values it appends to the fov list. Lemma
  \<open>loop_body_step\<close> proves that the loop body computes exactly these.
\<close>

definition step_depth ::
  "sampler \<Rightarrow> DepthProImageProcessorFast \<Rightarrow> tensor \<Rightarrow> real option \<Rightarrow> (nat \<times> nat) option
   \<Rightarrow> error + tensor" where
  "step_depth K self pd fv target_size =
     (case target_size of
        None \<Rightarrow> Inr (scalar_div 1 (torch_clamp pd 0.0001 10000))
      | Some ts \<Rightarrow>
          (case resize_depth K self
                  (case fv of
                     None \<Rightarrow> pd
                   | Some f \<Rightarrow> div_scalar (mul_scalar pd (real (snd ts)))
                                (0.5 * real (snd ts) / tan (0.5 * deg2rad f))) ts of
             Inl e \<Rightarrow> Inl e
           | Inr r \<Rightarrow> Inr (scalar_div 1 (torch_clamp r 0.0001 10000))))"

definition step_fov :: "real option \<Rightarrow> (nat \<times> nat) option \<Rightarrow> real list" where
  "step_fov fv target_size =
     (case target_size of
        None \<Rightarrow> []
      | Some ts \<Rightarrow>
          (case fv of
             None \<Rightarrow> []
           | Some f \<Rightarrow> [0.5 * real (snd ts) / tan (0.5 * deg2rad f)]))"

section \<open>Pre-processing: \<^verbatim>\<open>_build_transforms\<close>, \<^verbatim>\<open>_validate_input_arguments\<close>, \<^verbatim>\<open>preprocess\<close>\<close>

text \<open>
  The enumerations \<^verbatim>\<open>ImageType\<close> and \<^verbatim>\<open>ChannelDimension\<close> of
  \<^verbatim>\<open>image_utils\<close>. An image is its detected type and its pixel content as a
  channel-first tensor \<open>(C, H, W)\<close>; how a pixel-library image or an array lays
  its pixels out in memory is not modelled.
\<close>

datatype ImageType = PIL | TORCH | NUMPY | TENSORFLOW | JAX

datatype ChannelDimension = FIRST | LAST

datatype image = Img (kind: ImageType) (pixels: tensor)

text \<open>
  Modelled from the spec: \<^verbatim>\<open>get_image_type\<close> and \<^verbatim>\<open>make_list_of_images\<close>
  of \<^verbatim>\<open>image_utils\<close> are not in the sources. The input is already a list of
  images, and the type of an image is detected from the image.
\<close>

definition get_image_type :: "image \<Rightarrow> ImageType" where
  "get_image_type img = kind img"

definition make_list_of_images :: "image list \<Rightarrow> image list" where
  "make_list_of_images images = images"

text \<open>
  The steps a \<^verbatim>\<open>Compose\<close> is built from, each with the arguments its
  constructor is called with.
\<close>

datatype transform =
    PILToTensor
  | NumpyToTensor
  | FusedRescaleNormalize stat stat real
  | Rescale real
  | Normalize stat stat
  | Resize "nat \<times> nat" InterpolationMode bool

text \<open>
  \<^verbatim>\<open>_build_transforms\<close> (lines 140-168). A primed name is the parameter or the
  local variable of that name in the source; the unprimed names are the attributes of
  the processor.
\<close>

definition build_transforms ::
  "bool \<Rightarrow> SizeDict \<Rightarrow> PILImageResampling \<Rightarrow> bool \<Rightarrow> bool \<Rightarrow> real \<Rightarrow> bool \<Rightarrow> stat \<Rightarrow> stat
   \<Rightarrow> ImageType \<Rightarrow> transform list" where
  "build_transforms do_resize' size' resample' antialias' do_rescale' rescale_factor'
       do_normalize' image_mean' image_std' image_type' =
     (let transforms = [];
          transforms =
            (if image_type' = PIL then transforms @ [PILToTensor]
             else if image_type' = NUMPY then transforms @ [NumpyToTensor]
             else transforms);
          transforms =
            (if do_rescale' \<and> do_normalize'
             then transforms @ [FusedRescaleNormalize image_mean' image_std' rescale_factor']
             else if do_rescale' then transforms @ [Rescale rescale_factor']
             else if do_normalize' then transforms @ [Normalize image_mean' image_std']
             else transforms);
          transforms =
            (if do_resize'
             then transforms @ [Resize (height size', width size')
                                  (pil_torch_interpolation_mapping resample') antialias']
             else transforms)
      in transforms)"

text \<open>
  \<^verbatim>\<open>_validate_input_arguments\<close> (lines 186-199). Every argument the method tests
  against \<^verbatim>\<open>None\<close> is an option. The \<^verbatim>\<open>lru_cache\<close> around it is left out:
  the method reads nothing but its arguments, and a raised exception is not cached.
\<close>

definition validate_input_arguments ::
  "string option \<Rightarrow> bool \<Rightarrow> SizeDict option \<Rightarrow> PILImageResampling option \<Rightarrow> bool option
   \<Rightarrow> bool \<Rightarrow> real option \<Rightarrow> bool \<Rightarrow> stat option \<Rightarrow> stat option \<Rightarrow> ChannelDimension
   \<Rightarrow> ImageType \<Rightarrow> error + unit" where
  "validate_input_arguments return_tensors' do_resize' size' resample' antialias' do_rescale'
       rescale_factor' do_normalize' image_mean' image_std' data_format' image_type' =
     (if return_tensors' \<noteq> Some ''pt''
      then Inl (ValueError ''Only returning PyTorch tensors is currently supported.'')
      else if data_format' \<noteq> FIRST
      then Inl (ValueError ''Only channel first data format is currently supported.'')
      else if do_resize' \<and> (size' = None \<or> resample' = None \<or> antialias' = None)
      then Inl (ValueError
                  ''Size, resample and antialias must be specified if do_resize is True.'')
      else if do_rescale' \<and> rescale_factor' = None
      then Inl (ValueError ''Rescale factor must be specified if do_rescale is True.'')
      else if do_normalize' \<and> (image_mean' = None \<or> image_std' = None)
      then Inl (ValueError
           ''Image mean and standard deviation must be specified if do_normalize is True.'')
      else Inr ())"

subsection \<open>What the steps compute\<close>

text \<open>
  A per-channel statistic at channel \<open>k\<close>, for a tensor with \<open>c\<close> channels: a
  float applies to every channel, a list has one entry per channel (or one entry for
  all). A standard deviation of zero is refused, as the normalisation of the tensor
  library does.
\<close>

definition stat_at :: "stat \<Rightarrow> nat \<Rightarrow> real" where
  "stat_at s k = (case s of Scalar m \<Rightarrow> m
                  | Channels ms \<Rightarrow> if length ms = 1 then ms ! 0 else ms ! k)"

definition stat_ok :: "stat \<Rightarrow> nat \<Rightarrow> bool" where
  "stat_ok s c = (case s of Scalar m \<Rightarrow> True
                  | Channels ms \<Rightarrow> length ms = c \<or> length ms = 1)"

definition stat_nonzero :: "stat \<Rightarrow> bool" where
  "stat_nonzero s = (case s of Scalar m \<Rightarrow> m \<noteq> 0 | Channels ms \<Rightarrow> 0 \<notin> set ms)"

text \<open>
  An operation applied to every element together with the index of its channel: in a
  tensor of shape \<open>(..., C, H, W)\<close> the element at row-major position \<open>k\<close> lies
  in channel \<open>(k div (H * W)) mod C\<close>.
\<close>

definition per_channel ::
  "stat \<Rightarrow> stat \<Rightarrow> (nat \<Rightarrow> real \<Rightarrow> real) \<Rightarrow> tensor \<Rightarrow> error + tensor" where
  "per_channel mean std f t =
     (case rev (shape t) of
        w # h # c # _ \<Rightarrow>
          (if \<not> stat_nonzero std then Inl (ValueError ''std evaluated to zero'')
           else if stat_ok mean c \<and> stat_ok std c
           then Inr (Tensor (shape t)
                  (map (\<lambda>(k, x). f ((k div (h * w)) mod c) x) (enumerate 0 (vals t))))
           else Inl TorchError)
      | _ \<Rightarrow> Inl TorchError)"

text \<open>
  \<^verbatim>\<open>torchvision.transforms.Normalize\<close>: \<open>(x - mean) / std\<close> per channel.
\<close>

definition normalize_tensor :: "stat \<Rightarrow> stat \<Rightarrow> tensor \<Rightarrow> error + tensor" where
  "normalize_tensor mean std t =
     per_channel mean std (\<lambda>k x. (x - stat_at mean k) / stat_at std k) t"

text \<open>
  Modelled from the spec: the classes \<^verbatim>\<open>Rescale\<close> and
  \<^verbatim>\<open>FusedRescaleNormalize\<close> of \<^verbatim>\<open>image_transforms\<close> are not in the
  sources. The first computes \<open>x * rescale_factor\<close>, the second
  \<open>(x * rescale_factor - mean) / std\<close> per channel.
\<close>

definition rescale_tensor :: "real \<Rightarrow> tensor \<Rightarrow> tensor" where
  "rescale_tensor rescale_factor' t = mul_scalar t rescale_factor'"

definition fused_rescale_normalize :: "stat \<Rightarrow> stat \<Rightarrow> real \<Rightarrow> tensor \<Rightarrow> error + tensor" where
  "fused_rescale_normalize mean std rescale_factor' t =
     per_channel mean std (\<lambda>k x. (x * rescale_factor' - stat_at mean k) / stat_at std k) t"

text \<open>
  \<^verbatim>\<open>torchvision.transforms.Resize\<close> on a tensor: a tensor of fewer than four
  dimensions gets a leading axis for the interpolation and loses it again; the
  antialias flag is passed on only for the bilinear and bicubic modes.
\<close>

definition resize_tensor ::
  "sampler \<Rightarrow> nat \<times> nat \<Rightarrow> InterpolationMode \<Rightarrow> bool \<Rightarrow> tensor \<Rightarrow> error + tensor" where
  "resize_tensor K target_size mode aa t =
     (let aa' = (aa \<and> (mode = IM_BILINEAR \<or> mode = IM_BICUBIC)) in
      if length (shape t) < 4
      then (case interpolate K (unsqueeze 0 t) target_size mode (Some aa') of
              Inl e \<Rightarrow> Inl e
            | Inr r \<Rightarrow> Inr (Tensor (drop 1 (shape r)) (vals r)))
      else interpolate K t target_size mode (Some aa'))"

text \<open>
  \<^verbatim>\<open>torchvision.transforms.PILToTensor\<close>: the pixel values as a channel-first
  tensor, not rescaled.
\<close>

definition pil_to_tensor :: "tensor \<Rightarrow> tensor" where
  "pil_to_tensor content = content"

text \<open>
  Modelled from the spec: the class \<^verbatim>\<open>NumpyToTensor\<close> of
  \<^verbatim>\<open>image_transforms\<close> is not in the sources. It produces a channel-first
  tensor with the values in their original range.
\<close>

definition numpy_to_tensor :: "tensor \<Rightarrow> tensor" where
  "numpy_to_tensor content = content"

text \<open>
  One step applied to one image. A step is defined on the input type it declares: the
  two conversions on a pixel-library image and on an array, every other step on a
  tensor; on another input it raises \<^verbatim>\<open>TypeError\<close>.
\<close>

fun apply_transform :: "sampler \<Rightarrow> transform \<Rightarrow> image \<Rightarrow> error + image" where
  "apply_transform K PILToTensor img =
     (if kind img = PIL then Inr (Img TORCH (pil_to_tensor (pixels img))) else Inl TypeError)"
| "apply_transform K NumpyToTensor img =
     (if kind img = NUMPY then Inr (Img TORCH (numpy_to_tensor (pixels img)))
      else Inl TypeError)"
| "apply_transform K (FusedRescaleNormalize mean std r) img =
     (if kind img = TORCH
      then (case fused_rescale_normalize mean std r (pixels img) of
              Inl e \<Rightarrow> Inl e | Inr t \<Rightarrow> Inr (Img TORCH t))
      else Inl TypeError)"
| "apply_transform K (Rescale r) img =
     (if kind img = TORCH then Inr (Img TORCH (rescale_tensor r (pixels img)))
      else Inl TypeError)"
| "apply_transform K (Normalize mean std) img =
     (if kind img = TORCH
      then (case normalize_tensor mean std (pixels img) of
              Inl e \<Rightarrow> Inl e | Inr t \<Rightarrow> Inr (Img TORCH t))
      else Inl TypeError)"
| "apply_transform K (Resize target_size mode aa) img =
     (if kind img = TORCH
      then (case resize_tensor K target_size mode aa (pixels img) of
              Inl e \<Rightarrow> Inl e | Inr t \<Rightarrow> Inr (Img TORCH t))
      else Inl TypeError)"

text \<open>\<^verbatim>\<open>Compose(transforms)(image)\<close>: the steps in order.\<close>

fun Compose :: "sampler \<Rightarrow> transform list \<Rightarrow> image \<Rightarrow> error + image" where
  "Compose K [] img = Inr img"
| "Compose K (t # ts) img =
     (case apply_transform K t img of
        Inl e \<Rightarrow> Inl e
      | Inr img' \<Rightarrow> Compose K ts img')"

text \<open>
  The list comprehension \<^verbatim>\<open>[transforms(image) for image in images]\<close>: the first
  exception ends it.
\<close>

fun map_images :: "(image \<Rightarrow> error + image) \<Rightarrow> image list \<Rightarrow> error + image list" where
  "map_images f [] = Inr []"
| "map_images f (img # imgs) =
     (case f img of
        Inl e \<Rightarrow> Inl e
      | Inr r \<Rightarrow> (case map_images f imgs of
                    Inl e \<Rightarrow> Inl e
                  | Inr rs \<Rightarrow> Inr (r # rs)))"

text \<open>
  \<^verbatim>\<open>torch.stack(tensors, dim=0)\<close>: the list is not empty, its members are
  tensors of one shape, and the result has that shape behind a new leading axis.
\<close>

definition torch_stack :: "image list \<Rightarrow> error + tensor" where
  "torch_stack imgs =
     (case imgs of
        [] \<Rightarrow> Inl TorchError
      | first # _ \<Rightarrow>
          (if \<exists>img \<in> set imgs. kind img \<noteq> TORCH then Inl TypeError
           else if \<exists>img \<in> set imgs. shape (pixels img) \<noteq> shape (pixels first)
           then Inl TorchError
           else Inr (Tensor (length imgs # shape (pixels first))
                       (concat (map (\<lambda>img. vals (pixels img)) imgs)))))"

subsection \<open>\<^verbatim>\<open>preprocess\<close>\<close>

text \<open>
  The keyword arguments of \<^verbatim>\<open>preprocess\<close>; \<^verbatim>\<open>None\<close> stands for an
  argument that is not passed, except \<^verbatim>\<open>return_tensors\<close>, whose default is
  \<^verbatim>\<open>"pt"\<close> (the caller of the model passes \<open>Some ''pt''\<close> for it).
  \<^verbatim>\<open>input_data_format\<close> is never read. The returned
  \<^verbatim>\<open>BatchFeature\<close> is its data dictionary and its tensor type.
\<close>

record PreprocessKwargs =
  kw_do_resize :: "bool option"
  kw_size :: "SizeDict option"
  kw_resample :: "PILImageResampling option"
  kw_antialias :: "bool option"
  kw_do_rescale :: "bool option"
  kw_rescale_factor :: "real option"
  kw_do_normalize :: "bool option"
  kw_image_mean :: "stat option"
  kw_image_std :: "stat option"
  kw_return_tensors :: "string option"
  kw_data_format :: ChannelDimension

record BatchFeature =
  data :: "(string \<times> tensor) list"
  tensor_type :: "string option"

text \<open>
  \<^verbatim>\<open>x if x is not None else y\<close> (lines 258-266): \<open>or_default\<close> where the
  attribute \<open>y\<close> is never \<^verbatim>\<open>None\<close>, so that the merged value is a value;
  \<open>or_else\<close> where the attribute may be \<^verbatim>\<open>None\<close>, so that the merged
  value may be \<^verbatim>\<open>None\<close> too.
\<close>

definition or_default :: "'a option \<Rightarrow> 'a \<Rightarrow> 'a" where
  "or_default x y = (case x of Some v \<Rightarrow> v | None \<Rightarrow> y)"

definition or_else :: "'a option \<Rightarrow> 'a option \<Rightarrow> 'a option" where
  "or_else x y = (case x of Some v \<Rightarrow> Some v | None \<Rightarrow> y)"

text \<open>
  Modelled from the spec: \<^verbatim>\<open>get_transforms\<close> of the base class
  \<^verbatim>\<open>BaseImageProcessorFast\<close> is not in the sources. It builds the transforms
  from the merged parameters with \<^verbatim>\<open>_build_transforms\<close>; caching them changes
  no result. Its one call, in \<^verbatim>\<open>preprocess\<close>, comes after the validation has
  passed (lemma \<open>validate_passed\<close>), so a merged parameter that is
  \<^verbatim>\<open>None\<close> belongs to a step whose flag is off, and
  \<^verbatim>\<open>_build_transforms\<close> does not read it. \<open>build_transforms\<close> takes values
  of the types its signature declares, so such a parameter is handed over as the
  default of \<^verbatim>\<open>__init__\<close>; lemma \<open>get_transforms_validated\<close> proves that
  the transforms do not depend on this choice. A call with a flag on and its
  parameter \<^verbatim>\<open>None\<close>, which \<^verbatim>\<open>preprocess\<close> never makes, is outside
  this definition.
\<close>

definition get_transforms ::
  "bool \<Rightarrow> bool \<Rightarrow> bool \<Rightarrow> SizeDict \<Rightarrow> PILImageResampling option \<Rightarrow> bool option
   \<Rightarrow> real option \<Rightarrow> stat \<Rightarrow> stat \<Rightarrow> ImageType \<Rightarrow> transform list" where
  "get_transforms do_resize' do_rescale' do_normalize' size' resample' antialias'
       rescale_factor' image_mean' image_std' image_type' =
     build_transforms do_resize' size' (or_default resample' BILINEAR)
       (or_default antialias' False) do_rescale' (or_default rescale_factor' (1 / 255))
       do_normalize' image_mean' image_std' image_type'"

text \<open>
  \<^verbatim>\<open>preprocess\<close> (lines 258-308). The merged \<^verbatim>\<open>size\<close>,
  \<^verbatim>\<open>image_mean\<close> and \<^verbatim>\<open>image_std\<close> are values, the attributes being
  values; the merged \<^verbatim>\<open>resample\<close>, \<^verbatim>\<open>antialias\<close> and
  \<^verbatim>\<open>rescale_factor\<close> are \<^verbatim>\<open>None\<close> when neither the call nor the
  attribute gives one, and reach the validation as they are.
\<close>

definition preprocess ::
  "sampler \<Rightarrow> DepthProImageProcessorFast \<Rightarrow> image list \<Rightarrow> PreprocessKwargs
   \<Rightarrow> error + BatchFeature" where
  "preprocess K self images kw =
     (let do_resize' = or_default (kw_do_resize kw) (do_resize self);
          do_rescale' = or_default (kw_do_rescale kw) (do_rescale self);
          do_normalize' = or_default (kw_do_normalize kw) (do_normalize self);
          resample' = or_else (kw_resample kw) (resample self);
          antialias' = or_else (kw_antialias kw) (antialias self);
          rescale_factor' = or_else (kw_rescale_factor kw) (rescale_factor self);
          image_mean' = or_default (kw_image_mean kw) (image_mean self);
          image_std' = or_default (kw_image_std kw) (image_std self);
          size' = or_default (kw_size kw) (size_dict self);
          images' = make_list_of_images images
      in case images' of
           [] \<Rightarrow> Inl IndexError
         | first # _ \<Rightarrow>
             (let image_type' = get_image_type first in
              if image_type' \<notin> set [PIL, TORCH, NUMPY]
              then Inl (ValueError ''Unsupported input image type'')
              else
                (case validate_input_arguments (kw_return_tensors kw) do_resize' (Some size')
                        resample' antialias' do_rescale' rescale_factor'
                        do_normalize' (Some image_mean') (Some image_std')
                        (kw_data_format kw) image_type' of
                   Inl e \<Rightarrow> Inl e
                 | Inr u \<Rightarrow>
                     (let transforms =
                            get_transforms do_resize' do_rescale' do_normalize' size'
                              resample' antialias' rescale_factor' image_mean' image_std'
                              image_type'
                      in case map_images (Compose K transforms) images' of
                           Inl e \<Rightarrow> Inl e
                         | Inr transformed_images \<Rightarrow>
                             (case torch_stack transformed_images of
                                Inl e \<Rightarrow> Inl e
                              | Inr t \<Rightarrow>
                                  Inr \<lparr>data = [(''pixel_values'', t)],
                                       tensor_type = kw_return_tensors kw\<rparr>)))))"

text \<open>A call of \<^verbatim>\<open>preprocess\<close> with the images alone.\<close>

definition default_kwargs :: PreprocessKwargs where
  "default_kwargs =
     \<lparr>kw_do_resize = None, kw_size = None, kw_resample = None, kw_antialias = None,
      kw_do_rescale = None, kw_rescale_factor = None, kw_do_normalize = None,
      kw_image_mean = None, kw_image_std = None, kw_return_tensors = Some ''pt'',
      kw_data_format = FIRST\<rparr>"

section \<open>Facts about the tensor operations\<close>

lemma shape_tensor_map: "shape (tensor_map f t) = shape t"
  by (simp add: tensor_map_def)

lemma vals_tensor_map: "vals (tensor_map f t) = map f (vals t)"
  by (simp add: tensor_map_def)

section \<open>Post-processing: the loop\<close>

lemma loop_body_step:
  assumes "fov outputs \<noteq> None \<or> step_fov fv ts = []"
  shows "loop_body K self outputs pd fv ts =
           (case step_depth K self pd fv ts of
              Inl e \<Rightarrow> Inl e
            | Inr d \<Rightarrow> Inr \<lparr>predicted_depth = predicted_depth outputs @ [d],
                           fov = map_option (\<lambda>fs. fs @ step_fov fv ts) (fov outputs)\<rparr>)"
  using assms
  by (cases outputs)
     (auto simp: loop_body_def step_depth_def step_fov_def fov_scale_def Let_def
           option.map_ident split: option.splits sum.splits)

lemma loop_body_error:
  "loop_body K self outputs pd fv ts = Inl e \<Longrightarrow>
   e = TorchError \<or> e = KeyError \<or> e = AttributeError"
  by (auto simp: loop_body_def fov_scale_def resize_depth_def interpolate_def Let_def
           split: option.splits sum.splits list.splits)

lemma depth_loop_error:
  "depth_loop K self outputs xs = Inl e \<Longrightarrow>
   e = TorchError \<or> e = KeyError \<or> e = AttributeError"
proof (induction xs arbitrary: outputs)
  case Nil
  then show ?case by simp
next
  case (Cons x xs)
  obtain pd fv ts where x: "x = (pd, fv, ts)" by (cases x)
  show ?case
  proof (cases "loop_body K self outputs pd fv ts")
    case (Inl e')
    with Cons.prems x have "e = e'" by simp
    with Inl loop_body_error show ?thesis by blast
  next
    case (Inr outputs')
    with Cons.prems x have "depth_loop K self outputs' xs = Inl e" by simp
    then show ?thesis by (rule Cons.IH)
  qed
qed

lemma depth_loop_step:
  assumes "depth_loop K self outputs xs = Inr out"
    and "fov outputs \<noteq> None \<or> (\<forall>x\<in>set xs. step_fov (fst (snd x)) (snd (snd x)) = [])"
  shows "\<exists>ds. list_all2 (\<lambda>x d. step_depth K self (fst x) (fst (snd x)) (snd (snd x)) = Inr d) xs ds
             \<and> predicted_depth out = predicted_depth outputs @ ds
             \<and> fov out = map_option
                   (\<lambda>fs. fs @ concat (map (\<lambda>x. step_fov (fst (snd x)) (snd (snd x))) xs))
                   (fov outputs)"
  using assms
proof (induction xs arbitrary: outputs)
  case Nil
  then show ?case by (simp add: option.map_ident)
next
  case (Cons x xs)
  obtain pd fv ts where x: "x = (pd, fv, ts)" by (cases x)
  from Cons.prems(2) x have ok: "fov outputs \<noteq> None \<or> step_fov fv ts = []" by auto
  show ?case
  proof (cases "step_depth K self pd fv ts")
    case (Inl e)
    with Cons.prems(1) x ok show ?thesis by (simp add: loop_body_step)
  next
    case (Inr d)
    define outputs' where "outputs' = \<lparr>predicted_depth = predicted_depth outputs @ [d],
                           fov = map_option (\<lambda>fs. fs @ step_fov fv ts) (fov outputs)\<rparr>"
    from Inr ok have lb: "loop_body K self outputs pd fv ts = Inr outputs'"
      by (simp add: loop_body_step outputs'_def)
    with Cons.prems(1) x have rest: "depth_loop K self outputs' xs = Inr out" by simp
    from Cons.prems(2) have ok': "fov outputs' \<noteq> None
        \<or> (\<forall>x\<in>set xs. step_fov (fst (snd x)) (snd (snd x)) = [])"
      by (auto simp: outputs'_def)
    from Cons.IH [OF rest ok'] obtain ds where
      ds: "list_all2 (\<lambda>x d. step_depth K self (fst x) (fst (snd x)) (snd (snd x)) = Inr d) xs ds"
        "predicted_depth out = predicted_depth outputs' @ ds"
        "fov out = map_option
                   (\<lambda>fs. fs @ concat (map (\<lambda>x. step_fov (fst (snd x)) (snd (snd x))) xs))
                   (fov outputs')"
      by blast
    have "list_all2 (\<lambda>x d. step_depth K self (fst x) (fst (snd x)) (snd (snd x)) = Inr d)
            (x # xs) (d # ds)"
      using ds(1) Inr x by simp
    moreover have "predicted_depth out = predicted_depth outputs @ (d # ds)"
      using ds(2) by (simp add: outputs'_def)
    moreover have "fov out = map_option
                   (\<lambda>fs. fs @ concat (map (\<lambda>x. step_fov (fst (snd x)) (snd (snd x))) (x # xs)))
                   (fov outputs)"
      using ds(3) x by (cases "fov outputs") (simp_all add: outputs'_def)
    ultimately show ?thesis by blast
  qed
qed

lemma step_fov_None [simp]: "step_fov None ts = []"
  by (simp add: step_fov_def split: option.splits)

lemma step_fov_no_target [simp]: "step_fov fv None = []"
  by (simp add: step_fov_def)

lemma post_process_step:
  assumes ret: "post_process_depth_estimation K self pds fovs tss = Inr out"
  defines "fl \<equiv> per_sample (length pds) fovs"
    and "tsl \<equiv> per_sample (length pds) tss"
  shows "length fl = length pds \<and> length tsl = length pds
       \<and> length (predicted_depth out) = length pds
       \<and> (\<forall>i<length pds. step_depth K self (pds ! i) (fl ! i) (tsl ! i)
                             = Inr (predicted_depth out ! i))
       \<and> fov out = (case fovs of None \<Rightarrow> None
                     | Some l \<Rightarrow> Some (concat (map (\<lambda>(f, t). step_fov f t) (zip fl tsl))))"
proof -
  have lf: "length fl = length pds"
    using ret
    by (auto simp: post_process_depth_estimation_def fl_def per_sample_def
             split: option.splits if_splits)
  have lt: "length tsl = length pds"
    using ret
    by (auto simp: post_process_depth_estimation_def tsl_def per_sample_def
             split: option.splits if_splits)
  define outputs where
    "outputs = \<lparr>predicted_depth = [], fov = (case fovs of None \<Rightarrow> None | Some fs \<Rightarrow> Some [])\<rparr>"
  define xs where "xs = zip pds (zip fl tsl)"
  have nm: "\<not> (case fovs of None \<Rightarrow> False | Some fs \<Rightarrow> length pds \<noteq> length fs)"
    "\<not> (case tss of None \<Rightarrow> False | Some l \<Rightarrow> length pds \<noteq> length l)"
    using ret by (auto simp: post_process_depth_estimation_def split: if_splits)
  have "post_process_depth_estimation K self pds fovs tss = depth_loop K self outputs xs"
    unfolding post_process_depth_estimation_def Let_def outputs_def xs_def fl_def tsl_def
    using nm by simp
  with ret have loop: "depth_loop K self outputs xs = Inr out"
    by simp
  have ok: "fov outputs \<noteq> None \<or> (\<forall>x\<in>set xs. step_fov (fst (snd x)) (snd (snd x)) = [])"
  proof (cases fovs)
    case None
    have "fst (snd x) = None" if "x \<in> set xs" for x
    proof -
      obtain p f t where x: "x = (p, f, t)" by (cases x)
      with that have "(f, t) \<in> set (zip fl tsl)" by (auto simp: xs_def dest: set_zip_rightD)
      then have "f \<in> set fl" by (rule set_zip_leftD)
      with None x show ?thesis by (auto simp: fl_def per_sample_def)
    qed
    then show ?thesis by simp
  next
    case (Some l)
    then show ?thesis by (simp add: outputs_def)
  qed
  from depth_loop_step [OF loop ok] obtain ds where
    ds: "list_all2 (\<lambda>x d. step_depth K self (fst x) (fst (snd x)) (snd (snd x)) = Inr d) xs ds"
      "predicted_depth out = predicted_depth outputs @ ds"
      "fov out = map_option
                   (\<lambda>fs. fs @ concat (map (\<lambda>x. step_fov (fst (snd x)) (snd (snd x))) xs))
                   (fov outputs)"
    by blast
  have lx: "length xs = length pds" by (simp add: xs_def lf lt)
  have pd: "predicted_depth out = ds" using ds(2) by (simp add: outputs_def)
  have lds: "length ds = length pds" using ds(1) lx by (simp add: list_all2_lengthD [symmetric])
  have nth: "\<forall>i<length pds. step_depth K self (pds ! i) (fl ! i) (tsl ! i) = Inr (ds ! i)"
  proof (intro allI impI)
    fix i assume i: "i < length pds"
    then have "xs ! i = (pds ! i, fl ! i, tsl ! i)" by (simp add: xs_def lf lt)
    moreover from ds(1) i lx
    have "step_depth K self (fst (xs ! i)) (fst (snd (xs ! i))) (snd (snd (xs ! i))) = Inr (ds ! i)"
      by (simp add: list_all2_conv_all_nth)
    ultimately show "step_depth K self (pds ! i) (fl ! i) (tsl ! i) = Inr (ds ! i)" by simp
  qed
  have "map (\<lambda>x. step_fov (fst (snd x)) (snd (snd x))) xs
          = map (\<lambda>(f, t). step_fov f t) (zip fl tsl)"
  proof -
    have "map (\<lambda>x. step_fov (fst (snd x)) (snd (snd x))) xs
            = map (\<lambda>(f, t). step_fov f t) (map snd xs)"
      by (simp add: case_prod_unfold comp_def)
    also have "map snd xs = zip fl tsl" by (simp add: xs_def lf lt)
    finally show ?thesis .
  qed
  with ds(3) have "fov out = (case fovs of None \<Rightarrow> None
                     | Some l \<Rightarrow> Some (concat (map (\<lambda>(f, t). step_fov f t) (zip fl tsl))))"
    by (simp add: outputs_def split: option.splits)
  with lf lt pd lds nth show ?thesis by simp
qed

lemma depth_loop_no_target:
  "length fl = length pds \<Longrightarrow>
   depth_loop K self outputs (zip pds (zip fl (replicate (length pds) None)))
     = Inr (outputs\<lparr>predicted_depth :=
              predicted_depth outputs @ map (\<lambda>pd. scalar_div 1 (torch_clamp pd 0.0001 10000)) pds\<rparr>)"
proof (induction pds arbitrary: fl outputs)
  case Nil
  then show ?case by simp
next
  case (Cons pd pds)
  then obtain f fl' where fl: "fl = f # fl'" "length fl' = length pds"
    by (auto simp: length_Suc_conv)
  show ?case
    by (simp add: fl Cons.IH loop_body_def)
qed

lemma inverse_vals:
  "scalar_div c (torch_clamp t lo hi)
     = Tensor (shape t) (map (\<lambda>x. c / clamp x lo hi) (vals t))"
  by (simp add: scalar_div_def torch_clamp_def tensor_map_def comp_def)

lemma inverse_range: "0.0001 \<le> 1 / clamp x 0.0001 10000 \<and> 1 / clamp x 0.0001 10000 \<le> 10000"
proof -
  have lo: "(1 / 10000 :: real) \<le> clamp x 0.0001 10000" and hi: "clamp x 0.0001 10000 \<le> 10000"
    by (simp_all add: clamp_def)
  from lo have pos: "0 < clamp x 0.0001 10000" by linarith
  from pos lo hi show ?thesis by (simp add: field_simps)
qed

lemma step_depth_inverse:
  "step_depth K self pd fv ts = Inr d \<Longrightarrow>
   \<exists>t. d = Tensor (shape t) (map (\<lambda>x. 1 / clamp x 0.0001 10000) (vals t))"
  by (auto simp: step_depth_def inverse_vals split: option.splits sum.splits)

lemma step_depth_error:
  "step_depth K self pd fv ts = Inl e \<Longrightarrow> e = TorchError \<or> e = KeyError"
  by (auto simp: step_depth_def resize_depth_def interpolate_def
           split: option.splits sum.splits list.splits)

lemma depth_loop_torch_error:
  assumes "depth_loop K self outputs xs = Inl e"
    and "fov outputs \<noteq> None \<or> (\<forall>x\<in>set xs. step_fov (fst (snd x)) (snd (snd x)) = [])"
  shows "e = TorchError \<or> e = KeyError"
  using assms
proof (induction xs arbitrary: outputs)
  case Nil
  then show ?case by simp
next
  case (Cons x xs)
  obtain pd fv ts where x: "x = (pd, fv, ts)" by (cases x)
  from Cons.prems(2) x have ok: "fov outputs \<noteq> None \<or> step_fov fv ts = []" by auto
  show ?case
  proof (cases "step_depth K self pd fv ts")
    case (Inl e')
    with Cons.prems(1) x ok have "e = e'" by (simp add: loop_body_step)
    with Inl show ?thesis by (auto dest: step_depth_error)
  next
    case (Inr d)
    define outputs' where "outputs' = \<lparr>predicted_depth = predicted_depth outputs @ [d],
                           fov = map_option (\<lambda>fs. fs @ step_fov fv ts) (fov outputs)\<rparr>"
    from Inr ok have "loop_body K self outputs pd fv ts = Inr outputs'"
      by (simp add: loop_body_step outputs'_def)
    with Cons.prems(1) x have rest: "depth_loop K self outputs' xs = Inl e" by simp
    from Cons.prems(2) have "fov outputs' \<noteq> None
        \<or> (\<forall>x\<in>set xs. step_fov (fst (snd x)) (snd (snd x)) = [])"
      by (auto simp: outputs'_def)
    with rest show ?thesis by (rule Cons.IH)
  qed
qed

lemma per_sample_None_fov:
  "x \<in> set (zip pds (zip (per_sample n None) tsl)) \<Longrightarrow> step_fov (fst (snd x)) (snd (snd x)) = []"
proof -
  assume a: "x \<in> set (zip pds (zip (per_sample n None) tsl))"
  obtain p f t where x: "x = (p, f, t)" by (cases x)
  with a have "(f, t) \<in> set (zip (per_sample n None) tsl)" by (auto dest: set_zip_rightD)
  then have "f \<in> set (per_sample n None)" by (rule set_zip_leftD)
  then have "f = None" by (auto simp: per_sample_def)
  with x show ?thesis by simp
qed

text \<open>
  The only exceptions of the method are the length-mismatch error, those of the
  tensor library, and the \<^verbatim>\<open>KeyError\<close> of a resize with the attribute
  \<^verbatim>\<open>resample\<close> unset: the append to the fov list never meets
  \<^verbatim>\<open>None\<close>, since a fov value reaches the loop only when \<^verbatim>\<open>fovs\<close>
  was passed.
\<close>

lemma post_process_errors:
  assumes "post_process_depth_estimation K self pds fovs tss = Inl e"
  shows "e = ValueError length_mismatch_message \<or> e = TorchError \<or> e = KeyError"
proof (cases "(case fovs of None \<Rightarrow> False | Some fs \<Rightarrow> length pds \<noteq> length fs)
              \<or> (case tss of None \<Rightarrow> False | Some l \<Rightarrow> length pds \<noteq> length l)")
  case True
  with assms show ?thesis
    by (auto simp: post_process_depth_estimation_def split: if_splits)
next
  case False
  define outputs where
    "outputs = \<lparr>predicted_depth = [], fov = (case fovs of None \<Rightarrow> None | Some fs \<Rightarrow> Some [])\<rparr>"
  define xs where "xs = zip pds (zip (per_sample (length pds) fovs) (per_sample (length pds) tss))"
  have "post_process_depth_estimation K self pds fovs tss = depth_loop K self outputs xs"
    unfolding post_process_depth_estimation_def Let_def outputs_def xs_def
    using False by simp
  with assms have loop: "depth_loop K self outputs xs = Inl e" by simp
  have "fov outputs \<noteq> None \<or> (\<forall>x\<in>set xs. step_fov (fst (snd x)) (snd (snd x)) = [])"
  proof (cases fovs)
    case None
    then show ?thesis using per_sample_None_fov by (auto simp: xs_def)
  next
    case (Some l)
    then show ?thesis by (simp add: outputs_def)
  qed
  with loop have "e = TorchError \<or> e = KeyError" by (rule depth_loop_torch_error)
  then show ?thesis by blast
qed

lemma post_process_single:
  "post_process_depth_estimation K self [pd] (Some [f]) (Some [t]) =
     (case step_depth K self pd f t of
        Inl e \<Rightarrow> Inl e
      | Inr d \<Rightarrow> Inr \<lparr>predicted_depth = [d], fov = Some (step_fov f t)\<rparr>)"
  by (simp add: post_process_depth_estimation_def per_sample_def loop_body_step
           split: sum.splits)

lemma step_fov_Some:
  "step_fov (Some f) t =
     (case t of None \<Rightarrow> [] | Some ts \<Rightarrow> [0.5 * real (snd ts) / tan (0.5 * deg2rad f)])"
  by (simp add: step_fov_def split: option.splits)

lemma length_concat_step_fov:
  "length fs = length tsl \<Longrightarrow>
   length (concat (map (\<lambda>(f, t). step_fov (Some f) t) (zip fs tsl)))
     = length (filter (\<lambda>t. t \<noteq> None) tsl)"
  by (induction fs tsl rule: list_induct2) (auto simp: step_fov_def split: option.splits)

lemma length_concat_step_fov_both:
  "length (concat (map (\<lambda>(f, t). step_fov f t) zs))
     = length (filter (\<lambda>(f, t). f \<noteq> None \<and> t \<noteq> None) zs)"
  by (induction zs) (auto simp: step_fov_def split: option.splits)

lemma scale_once:
  "div_scalar (mul_scalar pd w) f = tensor_map (\<lambda>x. x * (w / f)) pd"
  by (simp add: div_scalar_def mul_scalar_def tensor_map_def)

text \<open>
  The shape of a resized depth map: the target size without its dimensions of
  extent 1. The library accepts the call only for a two-dimensional depth map.
\<close>

lemma resize_depth_shape:
  "resize_depth K self pd (h, w) = Inr r \<Longrightarrow>
   length (shape pd) = 2 \<and> shape r = filter (\<lambda>n. n \<noteq> 1) [h, w]"
  by (auto simp: resize_depth_def interpolate_def unsqueeze_def squeeze_def
           split: sum.splits list.splits option.splits)

text \<open>Unfolding the model on concrete inputs.\<close>

lemmas eval_defs = post_process_depth_estimation_def per_sample_def loop_body_def
  fov_scale_def resize_depth_def interpolate_def unsqueeze_def squeeze_def
  nearest_sampler_def default_processor_def scalar_div_def mul_scalar_def div_scalar_def
  torch_clamp_def tensor_map_def clamp_def deg2rad_def Let_def upt_rec tan_45

section \<open>Post-processing: the claims\<close>

text \<open>
  C1. A sample for which no target size is given is returned as the elementwise
  reciprocal of its depth map clamped to \<open>[1e-4, 1e4]\<close>, with its shape unchanged:
  element \<open>k\<close> of the output is \<open>1 / clamp (input k) 1e-4 1e4\<close>. With no target
  sizes and no fovs at all the call returns, and returns these maps in order; in a
  call that returns, it holds for every sample whose target size is
  \<^verbatim>\<open>None\<close>, whether or not a fov was passed for it (the loop reads the fov only
  under a target size).
\<close>

theorem C1_inverse_depth_without_target:
  "post_process_depth_estimation K self predicted_depths None None =
     Inr \<lparr>predicted_depth =
            map (\<lambda>pd. Tensor (shape pd) (map (\<lambda>x. 1 / clamp x 0.0001 10000) (vals pd)))
              predicted_depths,
          fov = None\<rparr>
   \<and> (\<forall>out i. post_process_depth_estimation K self predicted_depths fovs target_sizes = Inr out
        \<longrightarrow> i < length predicted_depths
        \<longrightarrow> (case target_sizes of None \<Rightarrow> True | Some tss \<Rightarrow> tss ! i = None)
        \<longrightarrow> predicted_depth out ! i =
              Tensor (shape (predicted_depths ! i))
                (map (\<lambda>x. 1 / clamp x 0.0001 10000) (vals (predicted_depths ! i))))"
proof (intro conjI allI impI)
  show "post_process_depth_estimation K self predicted_depths None None =
     Inr \<lparr>predicted_depth =
            map (\<lambda>pd. Tensor (shape pd) (map (\<lambda>x. 1 / clamp x 0.0001 10000) (vals pd)))
              predicted_depths,
          fov = None\<rparr>"
    using depth_loop_no_target [of "replicate (length predicted_depths) None" predicted_depths
            K self "\<lparr>predicted_depth = [], fov = None\<rparr>"]
    by (simp add: post_process_depth_estimation_def per_sample_def inverse_vals)
next
  fix out i
  assume ret: "post_process_depth_estimation K self predicted_depths fovs target_sizes = Inr out"
    and i: "i < length predicted_depths"
    and nt: "case target_sizes of None \<Rightarrow> True | Some tss \<Rightarrow> tss ! i = None"
  let ?fl = "per_sample (length predicted_depths) fovs"
  let ?tsl = "per_sample (length predicted_depths) target_sizes"
  from nt i have "?tsl ! i = None" by (simp add: per_sample_def split: option.splits)
  moreover from post_process_step [OF ret] i
  have "step_depth K self (predicted_depths ! i) (?fl ! i) (?tsl ! i) = Inr (predicted_depth out ! i)"
    by blast
  ultimately show "predicted_depth out ! i =
              Tensor (shape (predicted_depths ! i))
                (map (\<lambda>x. 1 / clamp x 0.0001 10000) (vals (predicted_depths ! i)))"
    by (simp add: step_depth_def inverse_vals)
qed

theorem C1_inverse_depth_without_target_witness:
  "post_process_depth_estimation nearest_sampler default_processor
       [Tensor [1, 3] [2, 0.00001, 100000]] None None
     = Inr \<lparr>predicted_depth = [Tensor [1, 3] [0.5, 10000, 0.0001]], fov = None\<rparr>
   \<and> post_process_depth_estimation nearest_sampler default_processor
       [Tensor [1, 3] [2, 0.00001, 100000]] (Some [Some 60]) (Some [None])
     = Inr \<lparr>predicted_depth = [Tensor [1, 3] [0.5, 10000, 0.0001]], fov = Some []\<rparr>
   \<and> predicted_depth \<lparr>predicted_depth = [Tensor [1, 3] [0.5, 10000, 0.0001]], fov = Some []\<rparr> ! 0
     = Tensor [1, 3] [0.5, 10000, 0.0001]"
proof -
  have ret: "post_process_depth_estimation nearest_sampler default_processor
       [Tensor [1, 3] [2, 0.00001, 100000]] (Some [Some 60]) (Some [None])
     = Inr \<lparr>predicted_depth = [Tensor [1, 3] [0.5, 10000, 0.0001]], fov = Some []\<rparr>"
    by (simp add: post_process_depth_estimation_def per_sample_def loop_body_def
          scalar_div_def torch_clamp_def tensor_map_def clamp_def)
  show ?thesis
    using ret
      C1_inverse_depth_without_target [of nearest_sampler default_processor
        "[Tensor [1, 3] [2, 0.00001, 100000]]" "Some [Some 60]" "Some [None]"]
    by (simp add: clamp_def)
qed

text \<open>
  C2. In a call that returns, take a sample \<open>i\<close> that has both a target size
  \<open>(h, w)\<close> and a fov value \<open>fv\<close> in degrees, and let
  \<open>f = 0.5 * w / tan (0.5 * deg2rad fv)\<close>. The raw depth map is multiplied
  elementwise by \<open>w / f\<close>; it is this scaled map that is resized (unsqueeze,
  interpolate, squeeze) to \<open>(h, w)\<close>, and the resized map that is clamped and
  inverted. \<open>f\<close> is appended to the fov list: it stands there after the values of
  the earlier samples that had both a fov and a target size.
\<close>

theorem C2_fov_scaling:
  assumes ret: "post_process_depth_estimation K self pds (Some fl) (Some tsl) = Inr out"
    and i: "i < length pds"
    and fi: "fl ! i = Some fv"
    and ti: "tsl ! i = Some (h, w)"
  shows "\<exists>r bs cs.
           resize_depth K self
               (tensor_map (\<lambda>x. x * (real w / (0.5 * real w / tan (0.5 * deg2rad fv)))) (pds ! i))
               (h, w) = Inr r
         \<and> predicted_depth out ! i = tensor_map (\<lambda>x. 1 / clamp x 0.0001 10000) r
         \<and> fov out = Some (bs @ [0.5 * real w / tan (0.5 * deg2rad fv)] @ cs)
         \<and> length bs = length (filter (\<lambda>(f, t). f \<noteq> None \<and> t \<noteq> None) (take i (zip fl tsl)))"
proof -
  let ?F = "0.5 * real w / tan (0.5 * deg2rad fv)"
  let ?g = "\<lambda>(f, t). step_fov f t"
  note st = post_process_step [OF ret]
  from st have lf: "length fl = length pds" and lt: "length tsl = length pds"
    by (simp_all add: per_sample_def)
  from st i have "step_depth K self (pds ! i) (per_sample (length pds) (Some fl) ! i)
                     (per_sample (length pds) (Some tsl) ! i) = Inr (predicted_depth out ! i)"
    by blast
  with fi ti have sd: "step_depth K self (pds ! i) (Some fv) (Some (h, w))
                              = Inr (predicted_depth out ! i)"
    by (simp add: per_sample_def)
  then obtain r where r: "resize_depth K self (div_scalar (mul_scalar (pds ! i) (real w)) ?F) (h, w)
                            = Inr r"
      and o: "predicted_depth out ! i = scalar_div 1 (torch_clamp r 0.0001 10000)"
    by (auto simp: step_depth_def split: sum.splits)
  from st have fo: "fov out = Some (concat (map ?g (zip fl tsl)))"
    by (simp add: per_sample_def)
  define Z where "Z = zip fl tsl"
  define A where "A = take i Z"
  define B where "B = drop (Suc i) Z"
  have iz: "i < length Z" using i lf lt by (simp add: Z_def)
  have zi: "Z ! i = (Some fv, Some (h, w))" using i lf lt fi ti by (simp add: Z_def)
  have dec: "Z = A @ (Some fv, Some (h, w)) # B"
    using id_take_nth_drop [OF iz] zi by (simp add: A_def B_def)
  have "concat (map ?g Z) = concat (map ?g (A @ (Some fv, Some (h, w)) # B))"
    by (rule arg_cong [OF dec])
  also have "\<dots> = concat (map ?g A) @ [?F] @ concat (map ?g B)"
    by (simp add: step_fov_def)
  finally have cc: "concat (map ?g Z) = concat (map ?g A) @ [?F] @ concat (map ?g B)" .
  have f3: "fov out = Some (concat (map ?g A) @ [?F] @ concat (map ?g B))"
    using fo cc by (simp only: Z_def)
  have f4: "length (concat (map ?g A))
              = length (filter (\<lambda>(f, t). f \<noteq> None \<and> t \<noteq> None) (take i (zip fl tsl)))"
    unfolding A_def Z_def by (rule length_concat_step_fov_both)
  have f1: "resize_depth K self (tensor_map (\<lambda>x. x * (real w / ?F)) (pds ! i)) (h, w) = Inr r"
    using r by (simp only: scale_once)
  have f2: "predicted_depth out ! i = tensor_map (\<lambda>x. 1 / clamp x 0.0001 10000) r"
    using o by (simp only: scalar_div_def torch_clamp_def tensor_map_def tensor.sel list.map_comp comp_def)
  show ?thesis
    by (rule exI [of _ r], rule exI [of _ "concat (map ?g A)"],
        rule exI [of _ "concat (map ?g B)"], intro conjI, rule f1, rule f2, rule f3, rule f4)
qed

theorem C2_fov_scaling_witness:
  "post_process_depth_estimation nearest_sampler default_processor
       [Tensor [2, 2] [1, 2, 3, 4], Tensor [1, 2] [0.00001, 100000]]
       (Some [Some 90, Some 60]) (Some [Some (2, 1), None])
     = Inr \<lparr>predicted_depth = [Tensor [2] [1 / 2, 1 / 6], Tensor [1, 2] [10000, 0.0001]],
            fov = Some [1 / 2]\<rparr>
   \<and> (\<exists>r bs cs.
         resize_depth nearest_sampler default_processor
             (tensor_map (\<lambda>x. x * (real 1 / (0.5 * real 1 / tan (0.5 * deg2rad 90))))
                ([Tensor [2, 2] [1, 2, 3, 4], Tensor [1, 2] [0.00001, 100000]] ! 0))
             (2, 1) = Inr r
       \<and> predicted_depth
           \<lparr>predicted_depth = [Tensor [2] [1 / 2, 1 / 6], Tensor [1, 2] [10000, 0.0001]],
            fov = Some [1 / 2]\<rparr> ! 0 = tensor_map (\<lambda>x. 1 / clamp x 0.0001 10000) r
       \<and> fov \<lparr>predicted_depth = [Tensor [2] [1 / 2, 1 / 6], Tensor [1, 2] [10000, 0.0001]],
              fov = Some [1 / 2]\<rparr> = Some (bs @ [0.5 * real 1 / tan (0.5 * deg2rad 90)] @ cs)
       \<and> length bs = length (filter (\<lambda>(f, t). f \<noteq> None \<and> t \<noteq> None)
                         (take 0 (zip [Some (90 :: real), Some 60] [Some (2 :: nat, 1 :: nat), None]))))
   \<and> 0.5 * real 1 / tan (0.5 * deg2rad 90) = 1 / 2"
proof -
  have ret: "post_process_depth_estimation nearest_sampler default_processor
       [Tensor [2, 2] [1, 2, 3, 4], Tensor [1, 2] [0.00001, 100000]]
       (Some [Some 90, Some 60]) (Some [Some (2, 1), None])
     = Inr \<lparr>predicted_depth = [Tensor [2] [1 / 2, 1 / 6], Tensor [1, 2] [10000, 0.0001]],
            fov = Some [1 / 2]\<rparr>"
    by (simp add: eval_defs)
  have ex: "\<exists>r bs cs.
         resize_depth nearest_sampler default_processor
             (tensor_map (\<lambda>x. x * (real 1 / (0.5 * real 1 / tan (0.5 * deg2rad 90))))
                ([Tensor [2, 2] [1, 2, 3, 4], Tensor [1, 2] [0.00001, 100000]] ! 0))
             (2, 1) = Inr r
       \<and> predicted_depth
           \<lparr>predicted_depth = [Tensor [2] [1 / 2, 1 / 6], Tensor [1, 2] [10000, 0.0001]],
            fov = Some [1 / 2]\<rparr> ! 0 = tensor_map (\<lambda>x. 1 / clamp x 0.0001 10000) r
       \<and> fov \<lparr>predicted_depth = [Tensor [2] [1 / 2, 1 / 6], Tensor [1, 2] [10000, 0.0001]],
              fov = Some [1 / 2]\<rparr> = Some (bs @ [0.5 * real 1 / tan (0.5 * deg2rad 90)] @ cs)
       \<and> length bs = length (filter (\<lambda>(f, t). f \<noteq> None \<and> t \<noteq> None)
                         (take 0 (zip [Some (90 :: real), Some 60] [Some (2 :: nat, 1 :: nat), None])))"
    by (rule C2_fov_scaling [OF ret]) simp_all
  have "0.5 * real 1 / tan (0.5 * deg2rad 90) = 1 / 2"
    by (simp add: deg2rad_def tan_45)
  with ret ex show ?thesis by (intro conjI)
qed

text \<open>
  C3. The call raises a \<^verbatim>\<open>ValueError\<close> if and only if \<^verbatim>\<open>fovs\<close> is given
  with a length other than the number of predicted depths, or
  \<^verbatim>\<open>target_sizes\<close> is (an empty list against a non-empty one included). The
  error then carries the length-mismatch message and is the whole result, whatever
  the tensor library would do: no sample is processed and no partial output exists.
\<close>

theorem C3_length_mismatch:
  "((\<exists>m. post_process_depth_estimation K self predicted_depths fovs target_sizes
            = Inl (ValueError m))
     = ((\<exists>fs. fovs = Some fs \<and> length fs \<noteq> length predicted_depths)
        \<or> (\<exists>tss. target_sizes = Some tss \<and> length tss \<noteq> length predicted_depths)))
   \<and> ((\<exists>fs. fovs = Some fs \<and> length fs \<noteq> length predicted_depths)
        \<or> (\<exists>tss. target_sizes = Some tss \<and> length tss \<noteq> length predicted_depths)
      \<longrightarrow> (\<forall>K'. post_process_depth_estimation K' self predicted_depths fovs target_sizes
                  = Inl (ValueError length_mismatch_message)))"
proof -
  have "depth_loop K self outputs xs \<noteq> Inl (ValueError m)" for outputs xs m
    using depth_loop_error [of K self outputs xs "ValueError m"] by auto
  then show ?thesis
    by (auto simp: post_process_depth_estimation_def Let_def split: option.splits)
qed

theorem C3_length_mismatch_witness:
  "post_process_depth_estimation nearest_sampler default_processor
       [Tensor [1, 1] [1]] (Some []) None = Inl (ValueError length_mismatch_message)
   \<and> post_process_depth_estimation nearest_sampler default_processor
       [] None (Some [None]) = Inl (ValueError length_mismatch_message)
   \<and> (\<nexists>m. post_process_depth_estimation nearest_sampler default_processor
       [Tensor [1, 1] [1]] (Some [None]) (Some [None]) = Inl (ValueError m))"
  using C3_length_mismatch [of nearest_sampler default_processor "[Tensor [1, 1] [1]]"
          "Some []" None]
    C3_length_mismatch [of nearest_sampler default_processor "[]" None "Some [None]"]
    C3_length_mismatch [of nearest_sampler default_processor "[Tensor [1, 1] [1]]"
          "Some [None]" "Some [None]"]
  by simp

text \<open>
  C4, as stated, fails when an entry of \<^verbatim>\<open>fovs\<close> is \<^verbatim>\<open>None\<close>: the
  loop appends a corrected value only for a sample that has a target size and a fov
  value. Here the one sample has a target size, and the returned fov list is empty.
\<close>

theorem C4_missing_fov_counterexample:
  "post_process_depth_estimation nearest_sampler default_processor
       [Tensor [2, 2] [1, 2, 3, 4]] (Some [None]) (Some [Some (2, 2)])
     = Inr \<lparr>predicted_depth = [Tensor [2, 2] [1, 1 / 2, 1 / 3, 1 / 4]], fov = Some []\<rparr>
   \<and> length ([] :: real list) \<noteq> length (filter (\<lambda>t. t \<noteq> None) [Some (2 :: nat, 2 :: nat)])"
  by (simp add: eval_defs)

text \<open>
  C4, amended. In a call that returns, \<^verbatim>\<open>predicted_depth\<close> has one entry per
  input sample, in input order: entry \<open>i\<close> is the depth map the method returns for
  sample \<open>i\<close> alone. The fov entry is \<^verbatim>\<open>None\<close> when no \<^verbatim>\<open>fovs\<close>
  were passed. When \<^verbatim>\<open>fovs\<close> were passed, the fov entry lists, in input order,
  the corrected values of exactly the samples that had both a target size and a fov
  value, so its length is the number of those samples; when a fov value was passed
  for every sample, these are the samples that had a target size.
\<close>

theorem C4_output_lists:
  assumes ret: "post_process_depth_estimation K self pds fovs tss = Inr out"
  shows "length (predicted_depth out) = length pds
   \<and> (\<forall>i<length pds. \<exists>o1.
         post_process_depth_estimation K self [pds ! i]
             (Some [per_sample (length pds) fovs ! i])
             (Some [per_sample (length pds) tss ! i]) = Inr o1
         \<and> predicted_depth o1 = [predicted_depth out ! i])
   \<and> (fovs = None \<longrightarrow> fov out = None)
   \<and> (\<forall>fl. fovs = Some fl \<longrightarrow>
         (\<exists>cs. fov out = Some cs
            \<and> cs = concat (map (\<lambda>(f, t). case t of
                                   None \<Rightarrow> []
                                 | Some ts \<Rightarrow>
                                     (case f of
                                        None \<Rightarrow> []
                                      | Some fv \<Rightarrow>
                                          [0.5 * real (snd ts) / tan (0.5 * deg2rad fv)]))
                            (zip fl (per_sample (length pds) tss)))
            \<and> length cs = length (filter (\<lambda>(f, t). f \<noteq> None \<and> t \<noteq> None)
                                     (zip fl (per_sample (length pds) tss)))))
   \<and> (\<forall>fs. fovs = Some (map Some fs) \<longrightarrow>
         (\<exists>cs. fov out = Some cs
            \<and> length cs = length (filter (\<lambda>t. t \<noteq> None) (per_sample (length pds) tss))))"
proof -
  let ?fl = "per_sample (length pds) fovs"
  let ?tsl = "per_sample (length pds) tss"
  note st = post_process_step [OF ret]
  from st have len: "length (predicted_depth out) = length pds" by blast
  from st have lt: "length ?tsl = length pds" by blast
  from st have lf: "length ?fl = length pds" by blast
  from st have nth: "\<forall>i<length pds. step_depth K self (pds ! i) (?fl ! i) (?tsl ! i)
                             = Inr (predicted_depth out ! i)" by blast
  from st have fv: "fov out = (case fovs of None \<Rightarrow> None
                     | Some l \<Rightarrow> Some (concat (map (\<lambda>(f, t). step_fov f t) (zip ?fl ?tsl))))"
    by blast
  have single: "\<forall>i<length pds. \<exists>o1.
         post_process_depth_estimation K self [pds ! i] (Some [?fl ! i]) (Some [?tsl ! i]) = Inr o1
         \<and> predicted_depth o1 = [predicted_depth out ! i]"
    using nth by (simp add: post_process_single)
  have none: "fovs = None \<longrightarrow> fov out = None"
    using fv by simp
  have some: "\<exists>cs. fov out = Some cs
            \<and> cs = concat (map (\<lambda>(f, t). case t of
                                   None \<Rightarrow> []
                                 | Some ts \<Rightarrow>
                                     (case f of
                                        None \<Rightarrow> []
                                      | Some fv \<Rightarrow>
                                          [0.5 * real (snd ts) / tan (0.5 * deg2rad fv)]))
                            (zip fl ?tsl))
            \<and> length cs = length (filter (\<lambda>(f, t). f \<noteq> None \<and> t \<noteq> None) (zip fl ?tsl))"
    if fl: "fovs = Some fl" for fl
  proof -
    from fv fl have eq: "fov out = Some (concat (map (\<lambda>(f, t). step_fov f t) (zip fl ?tsl)))"
      by (simp add: per_sample_def)
    have "length (concat (map (\<lambda>(f, t). step_fov f t) (zip fl ?tsl)))
            = length (filter (\<lambda>(f, t). f \<noteq> None \<and> t \<noteq> None) (zip fl ?tsl))"
      by (rule length_concat_step_fov_both)
    with eq show ?thesis unfolding step_fov_def by blast
  qed
  have every: "\<exists>cs. fov out = Some cs
            \<and> length cs = length (filter (\<lambda>t. t \<noteq> None) ?tsl)"
    if fs: "fovs = Some (map Some fs)" for fs
  proof -
    from fs lf have "length fs = length pds" by (simp add: per_sample_def)
    with lt have lfs: "length fs = length ?tsl" by simp
    have "map (\<lambda>(f, t). step_fov f t) (zip (map Some fs) ?tsl)
            = map (\<lambda>(f, t). step_fov (Some f) t) (zip fs ?tsl)"
      by (simp add: zip_map1 case_prod_unfold comp_def)
    with fv fs have eq: "fov out = Some (concat (map (\<lambda>(f, t). step_fov (Some f) t) (zip fs ?tsl)))"
      by (simp add: per_sample_def)
    moreover have "length (concat (map (\<lambda>(f, t). step_fov (Some f) t) (zip fs ?tsl)))
                     = length (filter (\<lambda>t. t \<noteq> None) ?tsl)"
      using lfs by (rule length_concat_step_fov)
    ultimately show ?thesis by blast
  qed
  from len single none some every show ?thesis by blast
qed

theorem C4_output_lists_witness:
  "post_process_depth_estimation nearest_sampler default_processor
       [Tensor [2, 2] [1, 2, 3, 4], Tensor [1, 2] [0.00001, 100000]]
       (Some [Some 90, None]) (Some [Some (2, 1), Some (1, 2)])
     = Inr \<lparr>predicted_depth = [Tensor [2] [1 / 2, 1 / 6], Tensor [2] [10000, 0.0001]],
            fov = Some [1 / 2]\<rparr>
   \<and> length (predicted_depth
         \<lparr>predicted_depth = [Tensor [2] [1 / 2, 1 / 6], Tensor [2] [10000, 0.0001]],
          fov = Some [1 / 2]\<rparr>) = length [Tensor [2, 2] [1, 2, 3, 4], Tensor [1, 2] [0.00001, 100000]]
   \<and> (\<exists>o1. post_process_depth_estimation nearest_sampler default_processor
              [Tensor [1, 2] [0.00001, 100000]] (Some [None]) (Some [Some (1, 2)]) = Inr o1
           \<and> predicted_depth o1 = [Tensor [2] [10000, 0.0001]])
   \<and> (\<exists>cs. fov \<lparr>predicted_depth = [Tensor [2] [1 / 2, 1 / 6], Tensor [2] [10000, 0.0001]],
                 fov = Some [1 / 2]\<rparr> = Some cs
          \<and> length cs = length (filter (\<lambda>(f, t). f \<noteq> None \<and> t \<noteq> None)
                                  (zip [Some (90 :: real), None]
                                       [Some (2 :: nat, 1 :: nat), Some (1, 2)])))
   \<and> length (filter (\<lambda>(f, t). f \<noteq> None \<and> t \<noteq> None)
               (zip [Some (90 :: real), None] [Some (2 :: nat, 1 :: nat), Some (1, 2)])) = 1"
proof -
  have ret: "post_process_depth_estimation nearest_sampler default_processor
       [Tensor [2, 2] [1, 2, 3, 4], Tensor [1, 2] [0.00001, 100000]]
       (Some [Some 90, None]) (Some [Some (2, 1), Some (1, 2)])
     = Inr \<lparr>predicted_depth = [Tensor [2] [1 / 2, 1 / 6], Tensor [2] [10000, 0.0001]],
            fov = Some [1 / 2]\<rparr>"
    by (simp add: eval_defs)
  note c4 = C4_output_lists [OF ret]
  have single: "\<exists>o1. post_process_depth_estimation nearest_sampler default_processor
              [Tensor [1, 2] [0.00001, 100000]] (Some [None]) (Some [Some (1, 2)]) = Inr o1
           \<and> predicted_depth o1 = [Tensor [2] [10000, 0.0001]]"
    using c4 [THEN conjunct2, THEN conjunct1, rule_format, of 1]
    by (simp add: per_sample_def)
  from ret single show ?thesis by simp
qed

text \<open>
  C5. The method is run on one sample of shape \<open>(2, 2)\<close> with the target size
  \<open>(1, 2)\<close> and no fov. The depth map it returns has shape \<open>(2)\<close>, not
  \<open>(1, 2)\<close>: \<^verbatim>\<open>squeeze()\<close> removes the target height of 1 together with
  the two axes added for the interpolation. Lemma \<open>resize_depth_shape\<close> gives the
  shape for every target size.
\<close>

theorem C5_unit_target_dimension:
  "post_process_depth_estimation nearest_sampler default_processor
       [Tensor [2, 2] [1, 2, 3, 4]] None (Some [Some (1, 2)])
     = Inr \<lparr>predicted_depth = [Tensor [2] [1, 1 / 2]], fov = None\<rparr>
   \<and> map shape (predicted_depth \<lparr>predicted_depth = [Tensor [2] [1, 1 / 2]], fov = None\<rparr>)
       \<noteq> [[1, 2]]"
  by (simp add: eval_defs)

text \<open>
  C10. Every element of every depth map a call returns lies in \<open>[1e-4, 1e4]\<close>.
\<close>

theorem C10_depth_range:
  assumes "post_process_depth_estimation K self predicted_depths fovs target_sizes = Inr out"
    and "d \<in> set (predicted_depth out)"
    and "x \<in> set (vals d)"
  shows "0.0001 \<le> x \<and> x \<le> 10000"
proof -
  from assms(2) obtain i where i: "i < length (predicted_depth out)" "d = predicted_depth out ! i"
    by (auto simp: in_set_conv_nth)
  with post_process_step [OF assms(1)] obtain f t where
    "step_depth K self (predicted_depths ! i) f t = Inr d"
    by auto
  then obtain t where "vals d = map (\<lambda>x. 1 / clamp x 0.0001 10000) (vals t)"
    by (auto dest: step_depth_inverse)
  with assms(3) obtain y where "x = 1 / clamp y 0.0001 10000" by auto
  then show ?thesis using inverse_range [of y] by simp
qed

theorem C10_depth_range_witness:
  "post_process_depth_estimation nearest_sampler default_processor
       [Tensor [2, 2] [1, 2, 3, 4]] None (Some [Some (1, 2)])
     = Inr \<lparr>predicted_depth = [Tensor [2] [1, 1 / 2]], fov = None\<rparr>
   \<and> Tensor [2] [1, 1 / 2] \<in> set (predicted_depth \<lparr>predicted_depth = [Tensor [2] [1, 1 / 2]], fov = None\<rparr>)
   \<and> (1 / 2 :: real) \<in> set (vals (Tensor [2] [1, 1 / 2]))
   \<and> (0.0001 :: real) \<le> 1 / 2 \<and> (1 / 2 :: real) \<le> 10000"
proof -
  have ret: "post_process_depth_estimation nearest_sampler default_processor
       [Tensor [2, 2] [1, 2, 3, 4]] None (Some [Some (1, 2)])
     = Inr \<lparr>predicted_depth = [Tensor [2] [1, 1 / 2]], fov = None\<rparr>"
    by (simp add: eval_defs)
  have "(0.0001 :: real) \<le> 1 / 2 \<and> (1 / 2 :: real) \<le> 10000"
    by (rule C10_depth_range [OF ret, of "Tensor [2] [1, 1 / 2]"]) simp_all
  with ret show ?thesis by simp
qed

section \<open>Pre-processing: the steps\<close>

lemma build_transforms_eq:
  "build_transforms do_resize' size' resample' antialias' do_rescale' rescale_factor'
       do_normalize' image_mean' image_std' image_type' =
     (if image_type' = PIL then [PILToTensor]
      else if image_type' = NUMPY then [NumpyToTensor] else [])
     @ (if do_rescale' \<and> do_normalize'
        then [FusedRescaleNormalize image_mean' image_std' rescale_factor']
        else if do_rescale' then [Rescale rescale_factor']
        else if do_normalize' then [Normalize image_mean' image_std'] else [])
     @ (if do_resize'
        then [Resize (height size', width size') (pil_torch_interpolation_mapping resample')
                antialias']
        else [])"
  by (simp add: build_transforms_def Let_def)

lemma enumerate_map:
  "enumerate n (map f xs) = map (\<lambda>(k, x). (k, f x)) (enumerate n xs)"
  by (induction xs arbitrary: n) simp_all

lemma normalize_rescale:
  "normalize_tensor mean std (rescale_tensor r t) = fused_rescale_normalize mean std r t"
  by (simp add: normalize_tensor_def rescale_tensor_def fused_rescale_normalize_def
        per_channel_def mul_scalar_def tensor_map_def enumerate_map case_prod_unfold comp_def
        split: list.splits)

lemma validate_error:
  "validate_input_arguments rt dr sz rs aa dc rf dn im isd df it = Inl e \<Longrightarrow> \<exists>m. e = ValueError m"
  by (auto simp: validate_input_arguments_def split: if_splits)

lemma Compose_append:
  "Compose K (xs @ ys) img =
     (case Compose K xs img of Inl e \<Rightarrow> Inl e | Inr m \<Rightarrow> Compose K ys m)"
  by (induction xs arbitrary: img) (auto split: sum.splits)

lemma map_images_Inr:
  "map_images f xs = Inr ys \<Longrightarrow>
   length ys = length xs \<and> (\<forall>i<length xs. f (xs ! i) = Inr (ys ! i))"
proof (induction xs arbitrary: ys)
  case Nil
  then show ?case by simp
next
  case (Cons x xs)
  from Cons.prems obtain r rs where r: "f x = Inr r" and rs: "map_images f xs = Inr rs"
    and ys: "ys = r # rs"
    by (auto split: sum.splits)
  from Cons.IH [OF rs] have "length rs = length xs" "\<forall>i<length xs. f (xs ! i) = Inr (rs ! i)"
    by simp_all
  with r ys show ?case by (auto simp: nth_Cons split: nat.splits)
qed

lemma torch_stack_Inr:
  "torch_stack imgs = Inr t \<Longrightarrow>
   imgs \<noteq> [] \<and> t = Tensor (length imgs # shape (pixels (imgs ! 0)))
                      (concat (map (\<lambda>img. vals (pixels img)) imgs))"
  by (auto simp: torch_stack_def split: list.splits if_splits)

lemma per_channel_shape: "per_channel mean std f t = Inr r \<Longrightarrow> shape r = shape t"
  by (auto simp: per_channel_def split: list.splits if_splits)

lemma apply_transform_keeps_shape:
  assumes "apply_transform K t img = Inr r" and "\<forall>sz m a. t \<noteq> Resize sz m a"
  shows "shape (pixels r) = shape (pixels img)"
  using assms
  by (cases t)
     (auto simp: fused_rescale_normalize_def normalize_tensor_def rescale_tensor_def
           mul_scalar_def tensor_map_def pil_to_tensor_def numpy_to_tensor_def
           dest: per_channel_shape split: if_splits sum.splits)

lemma apply_Resize_shape:
  assumes "apply_transform K (Resize (h', w') m a) img = Inr r"
    and "shape (pixels img) = [c, h, w]"
  shows "shape (pixels r) = [c, h', w']"
  using assms
  by (auto simp: resize_tensor_def interpolate_def unsqueeze_def Let_def
           split: if_splits sum.splits option.splits)

lemma Compose_keeps_shape:
  assumes "Compose K ts img = Inr r" and "\<forall>t\<in>set ts. \<forall>sz m a. t \<noteq> Resize sz m a"
  shows "shape (pixels r) = shape (pixels img)"
  using assms
proof (induction ts arbitrary: img)
  case Nil
  then show ?case by simp
next
  case (Cons t ts)
  from Cons.prems(1) obtain m where m: "apply_transform K t img = Inr m"
    and rest: "Compose K ts m = Inr r"
    by (auto split: sum.splits)
  from m Cons.prems(2) have "shape (pixels m) = shape (pixels img)"
    by (intro apply_transform_keeps_shape) auto
  moreover from rest Cons.prems(2) have "shape (pixels r) = shape (pixels m)"
    by (intro Cons.IH) auto
  ultimately show ?case by simp
qed

lemma Compose_build_shape:
  assumes c: "Compose K (build_transforms do_resize' size' resample' antialias' do_rescale'
                 rescale_factor' do_normalize' image_mean' image_std' image_type') img = Inr r"
    and s: "shape (pixels img) = [c, h, w]"
  shows "shape (pixels r) = (if do_resize' then [c, height size', width size'] else [c, h, w])"
proof -
  define pre where "pre =
     (if image_type' = PIL then [PILToTensor]
      else if image_type' = NUMPY then [NumpyToTensor] else [])
     @ (if do_rescale' \<and> do_normalize'
        then [FusedRescaleNormalize image_mean' image_std' rescale_factor']
        else if do_rescale' then [Rescale rescale_factor']
        else if do_normalize' then [Normalize image_mean' image_std'] else [])"
  define post where "post =
     (if do_resize'
        then [Resize (height size', width size') (pil_torch_interpolation_mapping resample')
                antialias']
        else [])"
  have bt: "build_transforms do_resize' size' resample' antialias' do_rescale'
                 rescale_factor' do_normalize' image_mean' image_std' image_type' = pre @ post"
    by (simp add: build_transforms_eq pre_def post_def)
  from c obtain m where m: "Compose K pre img = Inr m" and p: "Compose K post m = Inr r"
    by (auto simp: bt Compose_append split: sum.splits)
  have "\<forall>t\<in>set pre. \<forall>sz m a. t \<noteq> Resize sz m a" by (auto simp: pre_def)
  with m have "shape (pixels m) = shape (pixels img)" by (rule Compose_keeps_shape)
  with s have sm: "shape (pixels m) = [c, h, w]" by simp
  show ?thesis
  proof (cases do_resize')
    case True
    with p obtain "apply_transform K (Resize (height size', width size')
                      (pil_torch_interpolation_mapping resample') antialias') m = Inr r"
      by (auto simp: post_def split: sum.splits)
    then have "shape (pixels r) = [c, height size', width size']"
      using sm by (rule apply_Resize_shape)
    with True show ?thesis by simp
  next
    case False
    with p have "r = m" by (simp add: post_def)
    with sm False show ?thesis by simp
  qed
qed

text \<open>
  After a validation that has passed, the transforms are those of
  \<^verbatim>\<open>_build_transforms\<close> on the merged parameters: every parameter a step
  reads is there, and the others are not read.
\<close>

lemma get_transforms_validated:
  assumes "do_resize' \<longrightarrow> resample' = Some r \<and> antialias' = Some a"
    and "do_rescale' \<longrightarrow> rescale_factor' = Some f"
  shows "get_transforms do_resize' do_rescale' do_normalize' size' resample' antialias'
             rescale_factor' image_mean' image_std' image_type'
           = build_transforms do_resize' size' r a do_rescale' f do_normalize' image_mean'
               image_std' image_type'"
  using assms by (auto simp: get_transforms_def build_transforms_eq or_default_def)

lemma validate_passed:
  assumes "validate_input_arguments rt dr sz rs aa dc rf dn im isd df it = Inr u"
  shows "rt = Some ''pt'' \<and> df = FIRST \<and> (dr \<longrightarrow> sz \<noteq> None \<and> rs \<noteq> None \<and> aa \<noteq> None)
       \<and> (dc \<longrightarrow> rf \<noteq> None) \<and> (dn \<longrightarrow> im \<noteq> None \<and> isd \<noteq> None)"
  using assms by (auto simp: validate_input_arguments_def split: if_splits)

lemmas pre_eval_defs = preprocess_def or_default_def or_else_def default_kwargs_def default_processor_def
  validate_input_arguments_def get_transforms_def build_transforms_def
  make_list_of_images_def get_image_type_def pil_to_tensor_def numpy_to_tensor_def
  fused_rescale_normalize_def normalize_tensor_def
  rescale_tensor_def per_channel_def stat_at_def stat_ok_def stat_nonzero_def resize_tensor_def
  interpolate_def unsqueeze_def nearest_sampler_def torch_stack_def mul_scalar_def
  tensor_map_def Let_def upt_rec

section \<open>Pre-processing: the claims\<close>

text \<open>
  C6. \<^verbatim>\<open>_build_transforms\<close> returns, in this order: a conversion step exactly
  when the image type is a pixel-library image (\<^verbatim>\<open>PILToTensor\<close>) or an array
  (\<^verbatim>\<open>NumpyToTensor\<close>); then exactly one of the fused rescale-normalize step, the
  rescale step, the normalize step, or nothing, by the two flags; then a resize step
  exactly when \<^verbatim>\<open>do_resize\<close> is set. So a rescale or normalize step always
  stands before the resize step. The two conversion steps return the pixel values
  unchanged.
\<close>

theorem C6_transform_order:
  "build_transforms do_resize' size' resample' antialias' do_rescale' rescale_factor'
       do_normalize' image_mean' image_std' image_type' =
     (if image_type' = PIL then [PILToTensor]
      else if image_type' = NUMPY then [NumpyToTensor] else [])
     @ (if do_rescale' \<and> do_normalize'
        then [FusedRescaleNormalize image_mean' image_std' rescale_factor']
        else if do_rescale' then [Rescale rescale_factor']
        else if do_normalize' then [Normalize image_mean' image_std'] else [])
     @ (if do_resize'
        then [Resize (height size', width size') (pil_torch_interpolation_mapping resample')
                antialias']
        else [])
   \<and> apply_transform K PILToTensor (Img PIL t) = Inr (Img TORCH t)
   \<and> apply_transform K NumpyToTensor (Img NUMPY t) = Inr (Img TORCH t)"
  by (simp add: build_transforms_eq pil_to_tensor_def numpy_to_tensor_def)

theorem C6_transform_order_witness:
  "build_transforms True \<lparr>height = 1536, width = 1536\<rparr> BILINEAR False True (1 / 255) True
       (Channels [0.5, 0.5, 0.5]) (Channels [0.5, 0.5, 0.5]) PIL
     = [PILToTensor,
        FusedRescaleNormalize (Channels [0.5, 0.5, 0.5]) (Channels [0.5, 0.5, 0.5]) (1 / 255),
        Resize (1536, 1536) IM_BILINEAR False]
   \<and> build_transforms True \<lparr>height = 4, width = 6\<rparr> NEAREST True False (1 / 255) True
       (Scalar 0.5) (Scalar 0.25) TORCH
     = [Normalize (Scalar 0.5) (Scalar 0.25), Resize (4, 6) IM_NEAREST True]
   \<and> build_transforms False \<lparr>height = 4, width = 6\<rparr> NEAREST True True 2 False
       (Scalar 0.5) (Scalar 0.25) NUMPY
     = [NumpyToTensor, Rescale 2]"
  using C6_transform_order [of True "\<lparr>height = 1536, width = 1536\<rparr>" BILINEAR False True
            "1 / 255" True "Channels [0.5, 0.5, 0.5]" "Channels [0.5, 0.5, 0.5]" PIL]
    C6_transform_order [of True "\<lparr>height = 4, width = 6\<rparr>" NEAREST True False
            "1 / 255" True "Scalar 0.5" "Scalar 0.25" TORCH]
    C6_transform_order [of False "\<lparr>height = 4, width = 6\<rparr>" NEAREST True True
            2 False "Scalar 0.5" "Scalar 0.25" NUMPY]
  by simp

text \<open>
  C7. The fused rescale-normalize step gives the same result as the rescale step
  followed by the normalize step, for every image, mean, standard deviation and
  rescale factor: the same tensor where they return one, the same exception where
  they raise (a standard deviation of zero, or statistics that do not fit the
  channels).
\<close>

theorem C7_fused_rescale_normalize:
  "Compose K [FusedRescaleNormalize mean std r] img
     = Compose K [Rescale r, Normalize mean std] img
   \<and> fused_rescale_normalize mean std r t = normalize_tensor mean std (rescale_tensor r t)"
  by (simp add: normalize_rescale split: sum.splits)

theorem C7_fused_rescale_normalize_witness:
  "Compose nearest_sampler
       [FusedRescaleNormalize (Channels [0.5, 0.5, 0.5]) (Channels [0.5, 0.5, 0.5]) (1 / 255)]
       (Img TORCH (Tensor [3, 1, 1] [0, 255, 51]))
     = Inr (Img TORCH (Tensor [3, 1, 1] [- 1, 1, - (3 / 5)]))
   \<and> Compose nearest_sampler
       [Rescale (1 / 255), Normalize (Channels [0.5, 0.5, 0.5]) (Channels [0.5, 0.5, 0.5])]
       (Img TORCH (Tensor [3, 1, 1] [0, 255, 51]))
     = Inr (Img TORCH (Tensor [3, 1, 1] [- 1, 1, - (3 / 5)]))"
  using C7_fused_rescale_normalize [of nearest_sampler "Channels [0.5, 0.5, 0.5]"
          "Channels [0.5, 0.5, 0.5]" "1 / 255" "Img TORCH (Tensor [3, 1, 1] [0, 255, 51])"]
  by (simp add: pre_eval_defs)

text \<open>
  C8, as stated, fails on an empty list of images: \<^verbatim>\<open>images[0]\<close> raises
  \<^verbatim>\<open>IndexError\<close> before any argument is validated, also when the requested
  tensor backend is not the supported one.
\<close>

theorem C8_empty_batch_counterexample:
  "kw_return_tensors (default_kwargs\<lparr>kw_return_tensors := Some ''np''\<rparr>) \<noteq> Some ''pt''
   \<and> preprocess nearest_sampler default_processor []
        (default_kwargs\<lparr>kw_return_tensors := Some ''np''\<rparr>) = Inl IndexError"
  by (simp add: preprocess_def make_list_of_images_def default_kwargs_def)

text \<open>
  C8, amended. \<^verbatim>\<open>_validate_input_arguments\<close> raises a \<^verbatim>\<open>ValueError\<close>
  whenever the tensor backend is not \<^verbatim>\<open>"pt"\<close>, the channel layout is not
  channel-first, \<^verbatim>\<open>do_resize\<close> is set with size, resample or antialias unset,
  \<^verbatim>\<open>do_rescale\<close> is set with the rescale factor unset, or
  \<^verbatim>\<open>do_normalize\<close> is set with mean or standard deviation unset. On at least
  one image, \<^verbatim>\<open>preprocess\<close> raises a \<^verbatim>\<open>ValueError\<close> whenever the detected
  image type is not one of the three supported ones, the backend or the layout is
  not the supported one, the merged \<^verbatim>\<open>do_resize\<close> is set with the merged
  resample or antialias unset, the merged \<^verbatim>\<open>do_rescale\<close> is set with the merged
  rescale factor unset, or the validation of the merged arguments raises for any
  other reason (the merged size, mean and standard deviation are never unset: the
  processor holds a value for each); the error is the same for every behaviour of the
  tensor library, so no transform has run.
\<close>

theorem C8_invalid_arguments:
  "(return_tensors' \<noteq> Some ''pt'' \<or> data_format' \<noteq> FIRST
      \<or> (do_resize' \<and> (size' = None \<or> resample' = None \<or> antialias' = None))
      \<or> (do_rescale' \<and> rescale_factor' = None)
      \<or> (do_normalize' \<and> (image_mean' = None \<or> image_std' = None))
    \<longrightarrow> (\<exists>m. validate_input_arguments return_tensors' do_resize' size' resample' antialias'
               do_rescale' rescale_factor' do_normalize' image_mean' image_std' data_format'
               image_type' = Inl (ValueError m)))
   \<and> (images \<noteq> [] \<and>
       (get_image_type (hd images) \<notin> {PIL, TORCH, NUMPY}
        \<or> kw_return_tensors kw \<noteq> Some ''pt''
        \<or> kw_data_format kw \<noteq> FIRST
        \<or> (or_default (kw_do_resize kw) (do_resize self)
              \<and> (or_else (kw_resample kw) (resample self) = None
                   \<or> or_else (kw_antialias kw) (antialias self) = None))
        \<or> (or_default (kw_do_rescale kw) (do_rescale self)
              \<and> or_else (kw_rescale_factor kw) (rescale_factor self) = None)
        \<or> (\<exists>e. validate_input_arguments (kw_return_tensors kw)
                  (or_default (kw_do_resize kw) (do_resize self))
                  (Some (or_default (kw_size kw) (size_dict self)))
                  (or_else (kw_resample kw) (resample self))
                  (or_else (kw_antialias kw) (antialias self))
                  (or_default (kw_do_rescale kw) (do_rescale self))
                  (or_else (kw_rescale_factor kw) (rescale_factor self))
                  (or_default (kw_do_normalize kw) (do_normalize self))
                  (Some (or_default (kw_image_mean kw) (image_mean self)))
                  (Some (or_default (kw_image_std kw) (image_std self)))
                  (kw_data_format kw) (get_image_type (hd images)) = Inl e))
    \<longrightarrow> (\<exists>m. \<forall>K'. preprocess K' self images kw = Inl (ValueError m)))"
proof (intro conjI impI)
  assume "return_tensors' \<noteq> Some ''pt'' \<or> data_format' \<noteq> FIRST
      \<or> (do_resize' \<and> (size' = None \<or> resample' = None \<or> antialias' = None))
      \<or> (do_rescale' \<and> rescale_factor' = None)
      \<or> (do_normalize' \<and> (image_mean' = None \<or> image_std' = None))"
  then show "\<exists>m. validate_input_arguments return_tensors' do_resize' size' resample' antialias'
               do_rescale' rescale_factor' do_normalize' image_mean' image_std' data_format'
               image_type' = Inl (ValueError m)"
    by (auto simp: validate_input_arguments_def)
next
  let ?v = "validate_input_arguments (kw_return_tensors kw)
                  (or_default (kw_do_resize kw) (do_resize self))
                  (Some (or_default (kw_size kw) (size_dict self)))
                  (or_else (kw_resample kw) (resample self))
                  (or_else (kw_antialias kw) (antialias self))
                  (or_default (kw_do_rescale kw) (do_rescale self))
                  (or_else (kw_rescale_factor kw) (rescale_factor self))
                  (or_default (kw_do_normalize kw) (do_normalize self))
                  (Some (or_default (kw_image_mean kw) (image_mean self)))
                  (Some (or_default (kw_image_std kw) (image_std self)))
                  (kw_data_format kw) (get_image_type (hd images))"
  assume a: "images \<noteq> [] \<and>
       (get_image_type (hd images) \<notin> {PIL, TORCH, NUMPY}
        \<or> kw_return_tensors kw \<noteq> Some ''pt''
        \<or> kw_data_format kw \<noteq> FIRST
        \<or> (or_default (kw_do_resize kw) (do_resize self)
              \<and> (or_else (kw_resample kw) (resample self) = None
                   \<or> or_else (kw_antialias kw) (antialias self) = None))
        \<or> (or_default (kw_do_rescale kw) (do_rescale self)
              \<and> or_else (kw_rescale_factor kw) (rescale_factor self) = None)
        \<or> (\<exists>e. ?v = Inl e))"
  then obtain first rest where im: "images = first # rest" by (cases images) auto
  show "\<exists>m. \<forall>K'. preprocess K' self images kw = Inl (ValueError m)"
  proof (cases "get_image_type first \<notin> {PIL, TORCH, NUMPY}")
    case True
    then show ?thesis
      by (auto simp: preprocess_def make_list_of_images_def im Let_def)
  next
    case False
    have "\<exists>e. ?v = Inl e"
    proof (cases ?v)
      case (Inl e)
      then show ?thesis by blast
    next
      case (Inr u)
      from validate_passed [OF Inr] a im False show ?thesis by auto
    qed
    then obtain e where e: "?v = Inl e" by blast
    then obtain m where "e = ValueError m" by (auto dest: validate_error)
    with e False im have "\<forall>K'. preprocess K' self images kw = Inl (ValueError m)"
      by (auto simp: preprocess_def make_list_of_images_def Let_def)
    then show ?thesis ..
  qed
qed

theorem C8_invalid_arguments_witness:
  "validate_input_arguments (Some ''np'') True (Some \<lparr>height = 2, width = 2\<rparr>) (Some BILINEAR)
       (Some False) True (Some (1 / 255)) True (Some (Scalar 0.5)) (Some (Scalar 0.5)) FIRST TORCH
     = Inl (ValueError ''Only returning PyTorch tensors is currently supported.'')
   \<and> preprocess nearest_sampler default_processor [Img TENSORFLOW (Tensor [3, 1, 1] [0, 255, 51])]
       default_kwargs
     = Inl (ValueError ''Unsupported input image type'')
   \<and> preprocess nearest_sampler default_processor [Img TORCH (Tensor [3, 1, 1] [0, 255, 51])]
       (default_kwargs\<lparr>kw_data_format := LAST\<rparr>)
     = Inl (ValueError ''Only channel first data format is currently supported.'')
   \<and> or_default (kw_do_resize default_kwargs) (do_resize (default_processor\<lparr>resample := None\<rparr>))
   \<and> or_else (kw_resample default_kwargs) (resample (default_processor\<lparr>resample := None\<rparr>)) = None
   \<and> preprocess nearest_sampler (default_processor\<lparr>resample := None\<rparr>)
       [Img TORCH (Tensor [3, 1, 1] [0, 255, 51])] default_kwargs
     = Inl (ValueError ''Size, resample and antialias must be specified if do_resize is True.'')
   \<and> or_else (kw_rescale_factor default_kwargs)
       (rescale_factor (default_processor\<lparr>rescale_factor := None\<rparr>)) = None
   \<and> preprocess nearest_sampler (default_processor\<lparr>rescale_factor := None\<rparr>)
       [Img TORCH (Tensor [3, 1, 1] [0, 255, 51])] default_kwargs
     = Inl (ValueError ''Rescale factor must be specified if do_rescale is True.'')"
  using C8_invalid_arguments [of "Some ''np''" FIRST True "Some \<lparr>height = 2, width = 2\<rparr>"
          "Some BILINEAR" "Some False" True "Some (1 / 255)" True "Some (Scalar 0.5)"
          "Some (Scalar 0.5)" TORCH "[Img TORCH (Tensor [3, 1, 1] [0, 255, 51])]"
          default_kwargs "default_processor\<lparr>resample := None\<rparr>"]
  by (simp add: pre_eval_defs)

text \<open>
  C9. When \<^verbatim>\<open>preprocess\<close> returns on \<open>N\<close> images, there is one result per
  image, each the result of the one composed transform built from the merged
  arguments (the merged resample and antialias are there when resizing is on, the
  merged rescale factor when rescaling is on, and \<^verbatim>\<open>_build_transforms\<close> reads
  them in no other case); the returned data has the single field
  \<^verbatim>\<open>pixel_values\<close>, the results stacked behind a new leading axis of extent
  \<open>N\<close>. When every image has shape \<open>(C, H, W)\<close>, that tensor has shape
  \<open>(N, C, height, width)\<close> of the target size if resizing is on, and
  \<open>(N, C, H, W)\<close> if not.
\<close>

theorem C9_preprocess_output:
  assumes ret: "preprocess K self images kw = Inr out"
  shows "\<exists>outs resample' antialias' rescale_factor'.
           (or_default (kw_do_resize kw) (do_resize self) \<longrightarrow>
              or_else (kw_resample kw) (resample self) = Some resample'
              \<and> or_else (kw_antialias kw) (antialias self) = Some antialias')
         \<and> (or_default (kw_do_rescale kw) (do_rescale self) \<longrightarrow>
              or_else (kw_rescale_factor kw) (rescale_factor self) = Some rescale_factor')
         \<and> length outs = length images
         \<and> (\<forall>i<length images.
              Compose K (build_transforms (or_default (kw_do_resize kw) (do_resize self))
                           (or_default (kw_size kw) (size_dict self))
                           resample' antialias'
                           (or_default (kw_do_rescale kw) (do_rescale self))
                           rescale_factor'
                           (or_default (kw_do_normalize kw) (do_normalize self))
                           (or_default (kw_image_mean kw) (image_mean self))
                           (or_default (kw_image_std kw) (image_std self))
                           (get_image_type (hd images)))
                 (images ! i) = Inr (outs ! i))
         \<and> out = \<lparr>data = [(''pixel_values'',
                            Tensor (length images # shape (pixels (outs ! 0)))
                              (concat (map (\<lambda>img. vals (pixels img)) outs)))],
                   tensor_type = Some ''pt''\<rparr>
         \<and> (\<forall>c h w. (\<forall>img\<in>set images. shape (pixels img) = [c, h, w]) \<longrightarrow>
               length images # shape (pixels (outs ! 0)) =
                 (if or_default (kw_do_resize kw) (do_resize self)
                  then [length images, c, height (or_default (kw_size kw) (size_dict self)),
                        width (or_default (kw_size kw) (size_dict self))]
                  else [length images, c, h, w]))"
proof -
  define rs where "rs = or_else (kw_resample kw) (resample self)"
  define aa where "aa = or_else (kw_antialias kw) (antialias self)"
  define rf where "rf = or_else (kw_rescale_factor kw) (rescale_factor self)"
  define r where "r = or_default rs BILINEAR"
  define a where "a = or_default aa False"
  define f where "f = or_default rf (1 / 255)"
  let ?dr = "or_default (kw_do_resize kw) (do_resize self)"
  let ?dc = "or_default (kw_do_rescale kw) (do_rescale self)"
  let ?ts = "build_transforms ?dr (or_default (kw_size kw) (size_dict self)) r a ?dc f
                           (or_default (kw_do_normalize kw) (do_normalize self))
                           (or_default (kw_image_mean kw) (image_mean self))
                           (or_default (kw_image_std kw) (image_std self))
                           (get_image_type (hd images))"
  from ret obtain first rest where im: "images = first # rest"
    by (cases images) (auto simp: preprocess_def make_list_of_images_def Let_def)
  from ret im obtain u where v: "validate_input_arguments (kw_return_tensors kw) ?dr
                  (Some (or_default (kw_size kw) (size_dict self))) rs aa ?dc rf
                  (or_default (kw_do_normalize kw) (do_normalize self))
                  (Some (or_default (kw_image_mean kw) (image_mean self)))
                  (Some (or_default (kw_image_std kw) (image_std self)))
                  (kw_data_format kw) (get_image_type (hd images)) = Inr u"
    by (auto simp: preprocess_def make_list_of_images_def Let_def rs_def aa_def rf_def
             split: if_splits sum.splits)
  note vp = validate_passed [OF v]
  from vp have rt: "kw_return_tensors kw = Some ''pt''" by blast
  from vp have on1: "?dr \<longrightarrow> rs = Some r \<and> aa = Some a"
    by (auto simp: r_def a_def or_default_def)
  from vp have on2: "?dc \<longrightarrow> rf = Some f"
    by (auto simp: f_def or_default_def)
  from ret im obtain outs t where mi: "map_images (Compose K ?ts) images = Inr outs"
    and st: "torch_stack outs = Inr t"
    and o: "out = \<lparr>data = [(''pixel_values'', t)], tensor_type = kw_return_tensors kw\<rparr>"
    by (auto simp: preprocess_def make_list_of_images_def get_transforms_def Let_def
                   rs_def aa_def rf_def r_def a_def f_def
             split: if_splits sum.splits)
  from map_images_Inr [OF mi] have len: "length outs = length images"
    and nth: "\<forall>i<length images. Compose K ?ts (images ! i) = Inr (outs ! i)"
    by simp_all
  from torch_stack_Inr [OF st] len
  have t: "t = Tensor (length images # shape (pixels (outs ! 0)))
                 (concat (map (\<lambda>img. vals (pixels img)) outs))"
    by simp
  from o t rt have o': "out = \<lparr>data = [(''pixel_values'',
                            Tensor (length images # shape (pixels (outs ! 0)))
                              (concat (map (\<lambda>img. vals (pixels img)) outs)))],
                   tensor_type = Some ''pt''\<rparr>"
    by simp
  have sh: "\<forall>c h w. (\<forall>img\<in>set images. shape (pixels img) = [c, h, w]) \<longrightarrow>
               length images # shape (pixels (outs ! 0)) =
                 (if ?dr
                  then [length images, c, height (or_default (kw_size kw) (size_dict self)),
                        width (or_default (kw_size kw) (size_dict self))]
                  else [length images, c, h, w])"
  proof (intro allI impI)
    fix c h w
    assume all: "\<forall>img\<in>set images. shape (pixels img) = [c, h, w]"
    from im have "0 < length images" by simp
    with nth have "Compose K ?ts (images ! 0) = Inr (outs ! 0)" by blast
    moreover from all im have "shape (pixels (images ! 0)) = [c, h, w]" by simp
    ultimately have "shape (pixels (outs ! 0)) =
        (if ?dr
         then [c, height (or_default (kw_size kw) (size_dict self)),
               width (or_default (kw_size kw) (size_dict self))]
         else [c, h, w])"
      by (rule Compose_build_shape)
    then show "length images # shape (pixels (outs ! 0)) =
                 (if ?dr
                  then [length images, c, height (or_default (kw_size kw) (size_dict self)),
                        width (or_default (kw_size kw) (size_dict self))]
                  else [length images, c, h, w])"
      by simp
  qed
  show ?thesis
    apply (rule exI [of _ outs], rule exI [of _ r], rule exI [of _ a], rule exI [of _ f])
    using on1 on2 len nth o' sh unfolding rs_def aa_def rf_def
    apply (intro conjI)
    apply assumption+
    done
qed

theorem C9_preprocess_output_witness:
  "preprocess nearest_sampler default_processor
       [Img PIL (Tensor [3, 1, 1] [0, 255, 51]), Img PIL (Tensor [3, 1, 1] [255, 0, 51])]
       (default_kwargs\<lparr>kw_size := Some \<lparr>height = 2, width = 1\<rparr>\<rparr>)
     = Inr \<lparr>data = [(''pixel_values'',
                      Tensor [2, 3, 2, 1]
                        [- 1, - 1, 1, 1, - (3 / 5), - (3 / 5), 1, 1, - 1, - 1, - (3 / 5), - (3 / 5)])],
            tensor_type = Some ''pt''\<rparr>
   \<and> preprocess nearest_sampler default_processor
       [Img PIL (Tensor [3, 1, 1] [0, 255, 51]), Img PIL (Tensor [3, 1, 1] [255, 0, 51])]
       (default_kwargs\<lparr>kw_do_resize := Some False\<rparr>)
     = Inr \<lparr>data = [(''pixel_values'', Tensor [2, 3, 1, 1] [- 1, 1, - (3 / 5), 1, - 1, - (3 / 5)])],
            tensor_type = Some ''pt''\<rparr>
   \<and> preprocess nearest_sampler (default_processor\<lparr>resample := None, antialias := None\<rparr>)
       [Img PIL (Tensor [3, 1, 1] [0, 255, 51]), Img PIL (Tensor [3, 1, 1] [255, 0, 51])]
       (default_kwargs\<lparr>kw_do_resize := Some False\<rparr>)
     = Inr \<lparr>data = [(''pixel_values'', Tensor [2, 3, 1, 1] [- 1, 1, - (3 / 5), 1, - 1, - (3 / 5)])],
            tensor_type = Some ''pt''\<rparr>"
proof -
  have ret: "preprocess nearest_sampler default_processor
       [Img PIL (Tensor [3, 1, 1] [0, 255, 51]), Img PIL (Tensor [3, 1, 1] [255, 0, 51])]
       (default_kwargs\<lparr>kw_size := Some \<lparr>height = 2, width = 1\<rparr>\<rparr>)
     = Inr \<lparr>data = [(''pixel_values'',
                      Tensor [2, 3, 2, 1]
                        [- 1, - 1, 1, 1, - (3 / 5), - (3 / 5), 1, 1, - 1, - 1, - (3 / 5), - (3 / 5)])],
            tensor_type = Some ''pt''\<rparr>"
    by (simp add: pre_eval_defs)
  have ret2: "preprocess nearest_sampler default_processor
       [Img PIL (Tensor [3, 1, 1] [0, 255, 51]), Img PIL (Tensor [3, 1, 1] [255, 0, 51])]
       (default_kwargs\<lparr>kw_do_resize := Some False\<rparr>)
     = Inr \<lparr>data = [(''pixel_values'', Tensor [2, 3, 1, 1] [- 1, 1, - (3 / 5), 1, - 1, - (3 / 5)])],
            tensor_type = Some ''pt''\<rparr>"
    by (simp add: pre_eval_defs)
  have ret3: "preprocess nearest_sampler (default_processor\<lparr>resample := None, antialias := None\<rparr>)
       [Img PIL (Tensor [3, 1, 1] [0, 255, 51]), Img PIL (Tensor [3, 1, 1] [255, 0, 51])]
       (default_kwargs\<lparr>kw_do_resize := Some False\<rparr>)
     = Inr \<lparr>data = [(''pixel_values'', Tensor [2, 3, 1, 1] [- 1, 1, - (3 / 5), 1, - 1, - (3 / 5)])],
            tensor_type = Some ''pt''\<rparr>"
    by (simp add: pre_eval_defs)
  from C9_preprocess_output [OF ret] obtain outs :: "image list" where
    "length outs = length [Img PIL (Tensor [3, 1, 1] [0, 255, 51]),
                           Img PIL (Tensor [3, 1, 1] [255, 0, 51])]"
    by blast
  with ret ret2 ret3 show ?thesis by simp
qed

end
